theory Spec2Isabelle
  imports Complex_Main "HOL-Library.Word" "HOL-Library.Multiset"
begin

section \<open>Scalars shared by the sources\<close>

text \<open>
  A C \<open>double\<close> is used by \<open>GB_Global.c\<close> (\<open>chunk\<close>, \<open>hyper_ratio\<close>) and by
  \<open>dpagerank2.c\<close> (the page ranks) only through comparisons and \<open>fmax\<close>; the
  generated kernels only move \<open>float\<close> and \<open>double\<close> values around. The model
  keeps the four kinds of value an IEEE number has; a finite one is the real number it
  denotes (the two zeros compare equal in C and are one value here).
\<close>

datatype ieee = NaN | MInf | Fin real | PInf

type_synonym double = ieee
type_synonym float = ieee

text \<open>C's \<open>x <= y\<close> on doubles: false as soon as one side is a NaN.\<close>

fun double_le :: "double \<Rightarrow> double \<Rightarrow> bool" where
  "double_le NaN _ = False"
| "double_le _ NaN = False"
| "double_le MInf _ = True"
| "double_le (Fin x) MInf = False"
| "double_le (Fin x) (Fin y) = (x \<le> y)"
| "double_le (Fin x) PInf = True"
| "double_le PInf PInf = True"
| "double_le PInf _ = False"



text \<open>C99 \<open>fmax\<close>: a NaN argument is treated as missing data, the other one is returned.\<close>

fun fmax :: "double \<Rightarrow> double \<Rightarrow> double" where
  "fmax NaN y = y"
| "fmax x NaN = x"
| "fmax x y = (if double_le x y then y else x)"

type_synonym c_int = "32 word"
type_synonym int64_t = "64 word"
type_synonym size_t = "64 word"

text \<open>
  Modelled from the spec: the macro \<open>GB_IMAX\<close> of \<open>GB.h\<close> is not among the sources; it
  is the larger of two signed integers, as the thread-count ceiling "at least 1"
  requires. It is used at type \<open>int\<close> and at type \<open>int64_t\<close>.
\<close>

definition GB_IMAX :: "'a::len word \<Rightarrow> 'a word \<Rightarrow> 'a word" where
  "GB_IMAX x y = (if y <s x then x else y)"

section \<open>Global storage (\<open>GB_Global.c\<close>)\<close>

datatype GrB_Mode = GrB_NONBLOCKING | GrB_BLOCKING

datatype GxB_Format_Value = GxB_BY_ROW | GxB_BY_COL

text \<open>
  A C function pointer is the identity of the function it points to: one of the C
  library's functions, or a function of the caller's, named by its address.
\<close>

datatype fn_ptr = libc_malloc | libc_calloc | libc_realloc | libc_free | libc_abort
  | user_fn nat

text \<open>A pointer to a matrix is its address; \<open>None\<close> is \<open>NULL\<close>.\<close>

type_synonym addr = nat

text \<open>
  The constants \<open>GB_CHUNK_DEFAULT\<close>, \<open>GB_HYPER_DEFAULT\<close> and \<open>GB_FORMAT_DEFAULT\<close> are
  defined in headers that are not among the sources: they are parameters of the model.
\<close>

record build_constants =
  GB_CHUNK_DEFAULT :: double
  GB_HYPER_DEFAULT :: double
  GB_FORMAT_DEFAULT :: GxB_Format_Value

text \<open>
  Modelled from the spec: \<open>GxB_DEFAULT\<close> (an enumeration value of \<open>GraphBLAS.h\<close>, not
  among the sources) is the number 0 that the chunk setter compares its argument with.
\<close>

definition GxB_DEFAULT :: double where
  "GxB_DEFAULT = Fin 0"

record GB_Global_struct =
  queue_head :: "addr option"
  mode :: GrB_Mode
  GrB_init_called :: bool
  nthreads_max :: c_int
  chunk :: double
  hyper_ratio :: double
  is_csc :: bool
  abort_function :: fn_ptr
  malloc_function :: fn_ptr
  calloc_function :: fn_ptr
  realloc_function :: fn_ptr
  free_function :: fn_ptr
  malloc_is_thread_safe :: bool
  malloc_tracking :: bool
  nmalloc :: int64_t
  malloc_debug :: bool
  malloc_debug_count :: int64_t
  inuse :: int64_t
  maxused :: int64_t
  hack :: int64_t
  burble :: bool
  print_one_based :: bool
  print_format :: c_int

text \<open>The initializer of the global \<open>GB_Global\<close>.\<close>

definition GB_Global :: "build_constants \<Rightarrow> GB_Global_struct" where
  "GB_Global K = \<lparr>
     queue_head = None,
     mode = GrB_NONBLOCKING,
     GrB_init_called = False,
     nthreads_max = 1,
     chunk = GB_CHUNK_DEFAULT K,
     hyper_ratio = GB_HYPER_DEFAULT K,
     is_csc = (GB_FORMAT_DEFAULT K \<noteq> GxB_BY_ROW),
     abort_function = libc_abort,
     malloc_function = libc_malloc,
     calloc_function = libc_calloc,
     realloc_function = libc_realloc,
     free_function = libc_free,
     malloc_is_thread_safe = True,
     malloc_tracking = False,
     nmalloc = 0,
     malloc_debug = False,
     malloc_debug_count = 0,
     inuse = 0,
     maxused = 0,
     hack = 0,
     burble = False,
     print_one_based = False,
     print_format = 0 \<rparr>"

subsection \<open>Access functions\<close>

definition GB_Global_queue_head_set :: "addr option \<Rightarrow> GB_Global_struct \<Rightarrow> GB_Global_struct" where
  "GB_Global_queue_head_set p g = g\<lparr>queue_head := p\<rparr>"

definition GB_Global_queue_head_get :: "GB_Global_struct \<Rightarrow> addr option" where
  "GB_Global_queue_head_get g = queue_head g"

definition GB_Global_mode_set :: "GrB_Mode \<Rightarrow> GB_Global_struct \<Rightarrow> GB_Global_struct" where
  "GB_Global_mode_set m g = g\<lparr>mode := m\<rparr>"

definition GB_Global_mode_get :: "GB_Global_struct \<Rightarrow> GrB_Mode" where
  "GB_Global_mode_get g = mode g"

definition GB_Global_GrB_init_called_set :: "bool \<Rightarrow> GB_Global_struct \<Rightarrow> GB_Global_struct" where
  "GB_Global_GrB_init_called_set b g = g\<lparr>GrB_init_called := b\<rparr>"

definition GB_Global_GrB_init_called_get :: "GB_Global_struct \<Rightarrow> bool" where
  "GB_Global_GrB_init_called_get g = GrB_init_called g"

definition GB_Global_nthreads_max_set :: "c_int \<Rightarrow> GB_Global_struct \<Rightarrow> GB_Global_struct" where
  "GB_Global_nthreads_max_set n g = g\<lparr>nthreads_max := GB_IMAX n 1\<rparr>"

definition GB_Global_nthreads_max_get :: "GB_Global_struct \<Rightarrow> c_int" where
  "GB_Global_nthreads_max_get g = nthreads_max g"

definition GB_Global_chunk_set ::
  "build_constants \<Rightarrow> double \<Rightarrow> GB_Global_struct \<Rightarrow> GB_Global_struct" where
  "GB_Global_chunk_set K c g =
     (let c' = (if double_le c GxB_DEFAULT then GB_CHUNK_DEFAULT K else c)
      in g\<lparr>chunk := fmax c' (Fin 1)\<rparr>)"

definition GB_Global_chunk_get :: "GB_Global_struct \<Rightarrow> double" where
  "GB_Global_chunk_get g = chunk g"

definition GB_Global_hyper_ratio_set :: "double \<Rightarrow> GB_Global_struct \<Rightarrow> GB_Global_struct" where
  "GB_Global_hyper_ratio_set h g = g\<lparr>hyper_ratio := h\<rparr>"

definition GB_Global_hyper_ratio_get :: "GB_Global_struct \<Rightarrow> double" where
  "GB_Global_hyper_ratio_get g = hyper_ratio g"

definition GB_Global_is_csc_set :: "bool \<Rightarrow> GB_Global_struct \<Rightarrow> GB_Global_struct" where
  "GB_Global_is_csc_set b g = g\<lparr>is_csc := b\<rparr>"

definition GB_Global_is_csc_get :: "GB_Global_struct \<Rightarrow> bool" where
  "GB_Global_is_csc_get g = is_csc g"

definition GB_Global_abort_function_set :: "fn_ptr \<Rightarrow> GB_Global_struct \<Rightarrow> GB_Global_struct" where
  "GB_Global_abort_function_set f g = g\<lparr>abort_function := f\<rparr>"

definition GB_Global_malloc_function_set :: "fn_ptr \<Rightarrow> GB_Global_struct \<Rightarrow> GB_Global_struct" where
  "GB_Global_malloc_function_set f g = g\<lparr>malloc_function := f\<rparr>"

definition GB_Global_calloc_function_set :: "fn_ptr \<Rightarrow> GB_Global_struct \<Rightarrow> GB_Global_struct" where
  "GB_Global_calloc_function_set f g = g\<lparr>calloc_function := f\<rparr>"

definition GB_Global_realloc_function_set :: "fn_ptr \<Rightarrow> GB_Global_struct \<Rightarrow> GB_Global_struct" where
  "GB_Global_realloc_function_set f g = g\<lparr>realloc_function := f\<rparr>"

definition GB_Global_free_function_set :: "fn_ptr \<Rightarrow> GB_Global_struct \<Rightarrow> GB_Global_struct" where
  "GB_Global_free_function_set f g = g\<lparr>free_function := f\<rparr>"

definition GB_Global_malloc_is_thread_safe_set :: "bool \<Rightarrow> GB_Global_struct \<Rightarrow> GB_Global_struct" where
  "GB_Global_malloc_is_thread_safe_set b g = g\<lparr>malloc_is_thread_safe := b\<rparr>"

definition GB_Global_malloc_is_thread_safe_get :: "GB_Global_struct \<Rightarrow> bool" where
  "GB_Global_malloc_is_thread_safe_get g = malloc_is_thread_safe g"

definition GB_Global_malloc_tracking_set :: "bool \<Rightarrow> GB_Global_struct \<Rightarrow> GB_Global_struct" where
  "GB_Global_malloc_tracking_set b g = g\<lparr>malloc_tracking := b\<rparr>"

definition GB_Global_malloc_tracking_get :: "GB_Global_struct \<Rightarrow> bool" where
  "GB_Global_malloc_tracking_get g = malloc_tracking g"

definition GB_Global_nmalloc_clear :: "GB_Global_struct \<Rightarrow> GB_Global_struct" where
  "GB_Global_nmalloc_clear g = g\<lparr>nmalloc := 0\<rparr>"

definition GB_Global_nmalloc_get :: "GB_Global_struct \<Rightarrow> int64_t" where
  "GB_Global_nmalloc_get g = nmalloc g"

text \<open>\<open>++\<close> and \<open>--\<close> return the new value and store it.\<close>

definition GB_Global_nmalloc_increment :: "GB_Global_struct \<Rightarrow> int64_t \<times> GB_Global_struct" where
  "GB_Global_nmalloc_increment g = (nmalloc g + 1, g\<lparr>nmalloc := nmalloc g + 1\<rparr>)"

definition GB_Global_nmalloc_decrement :: "GB_Global_struct \<Rightarrow> int64_t \<times> GB_Global_struct" where
  "GB_Global_nmalloc_decrement g = (nmalloc g - 1, g\<lparr>nmalloc := nmalloc g - 1\<rparr>)"

definition GB_Global_malloc_debug_set :: "bool \<Rightarrow> GB_Global_struct \<Rightarrow> GB_Global_struct" where
  "GB_Global_malloc_debug_set b g = g\<lparr>malloc_debug := b\<rparr>"

definition GB_Global_malloc_debug_get :: "GB_Global_struct \<Rightarrow> bool" where
  "GB_Global_malloc_debug_get g = malloc_debug g"

definition GB_Global_malloc_debug_count_set :: "int64_t \<Rightarrow> GB_Global_struct \<Rightarrow> GB_Global_struct" where
  "GB_Global_malloc_debug_count_set n g = g\<lparr>malloc_debug_count := n\<rparr>"

text \<open>The post-decrement compares the old value and stores the new one.\<close>

definition GB_Global_malloc_debug_count_decrement ::
  "GB_Global_struct \<Rightarrow> bool \<times> GB_Global_struct" where
  "GB_Global_malloc_debug_count_decrement g =
     (malloc_debug_count g \<le>s 0, g\<lparr>malloc_debug_count := malloc_debug_count g - 1\<rparr>)"

definition GB_Global_inuse_clear :: "GB_Global_struct \<Rightarrow> GB_Global_struct" where
  "GB_Global_inuse_clear g = g\<lparr>inuse := 0, maxused := 0\<rparr>"

definition GB_Global_inuse_increment :: "int64_t \<Rightarrow> GB_Global_struct \<Rightarrow> GB_Global_struct" where
  "GB_Global_inuse_increment s g =
     (let g1 = g\<lparr>inuse := inuse g + s\<rparr>
      in g1\<lparr>maxused := GB_IMAX (maxused g1) (inuse g1)\<rparr>)"

definition GB_Global_inuse_decrement :: "int64_t \<Rightarrow> GB_Global_struct \<Rightarrow> GB_Global_struct" where
  "GB_Global_inuse_decrement s g = g\<lparr>inuse := inuse g - s\<rparr>"

definition GB_Global_inuse_get :: "GB_Global_struct \<Rightarrow> int64_t" where
  "GB_Global_inuse_get g = inuse g"

definition GB_Global_maxused_get :: "GB_Global_struct \<Rightarrow> int64_t" where
  "GB_Global_maxused_get g = maxused g"

definition GB_Global_hack_set :: "int64_t \<Rightarrow> GB_Global_struct \<Rightarrow> GB_Global_struct" where
  "GB_Global_hack_set h g = g\<lparr>hack := h\<rparr>"

definition GB_Global_hack_get :: "GB_Global_struct \<Rightarrow> int64_t" where
  "GB_Global_hack_get g = hack g"

definition GB_Global_burble_set :: "bool \<Rightarrow> GB_Global_struct \<Rightarrow> GB_Global_struct" where
  "GB_Global_burble_set b g = g\<lparr>burble := b\<rparr>"

definition GB_Global_burble_get :: "GB_Global_struct \<Rightarrow> bool" where
  "GB_Global_burble_get g = burble g"

definition GB_Global_print_one_based_set :: "bool \<Rightarrow> GB_Global_struct \<Rightarrow> GB_Global_struct" where
  "GB_Global_print_one_based_set b g = g\<lparr>print_one_based := b\<rparr>"

definition GB_Global_print_one_based_get :: "GB_Global_struct \<Rightarrow> bool" where
  "GB_Global_print_one_based_get g = print_one_based g"

definition GB_Global_print_format_set :: "c_int \<Rightarrow> GB_Global_struct \<Rightarrow> GB_Global_struct" where
  "GB_Global_print_format_set f g = g\<lparr>print_format := f\<rparr>"

definition GB_Global_print_format_get :: "GB_Global_struct \<Rightarrow> c_int" where
  "GB_Global_print_format_get g = print_format g"

subsection \<open>Reachable global states\<close>

text \<open>
  The contents of \<open>GB_Global\<close> are accessible to the functions of \<open>GB_Global.c\<close> only,
  so every state the program can be in is reached from the initializer by calls of the
  functions of that file that write it. A call is named by its function and arguments.
\<close>

datatype global_call =
    Queue_head_set "addr option"
  | Mode_set GrB_Mode
  | GrB_init_called_set bool
  | Nthreads_max_set c_int
  | Chunk_set double
  | Hyper_ratio_set double
  | Is_csc_set bool
  | Abort_function_set fn_ptr
  | Malloc_function_set fn_ptr
  | Calloc_function_set fn_ptr
  | Realloc_function_set fn_ptr
  | Free_function_set fn_ptr
  | Malloc_is_thread_safe_set bool
  | Malloc_tracking_set bool
  | Nmalloc_clear
  | Nmalloc_increment
  | Nmalloc_decrement
  | Malloc_debug_set bool
  | Malloc_debug_count_set int64_t
  | Malloc_debug_count_decrement
  | Inuse_clear
  | Inuse_increment int64_t
  | Inuse_decrement int64_t
  | Hack_set int64_t
  | Burble_set bool
  | Print_one_based_set bool
  | Print_format_set c_int

fun run_call :: "build_constants \<Rightarrow> GB_Global_struct \<Rightarrow> global_call \<Rightarrow> GB_Global_struct" where
  "run_call K g (Queue_head_set p) = GB_Global_queue_head_set p g"
| "run_call K g (Mode_set m) = GB_Global_mode_set m g"
| "run_call K g (GrB_init_called_set b) = GB_Global_GrB_init_called_set b g"
| "run_call K g (Nthreads_max_set n) = GB_Global_nthreads_max_set n g"
| "run_call K g (Chunk_set c) = GB_Global_chunk_set K c g"
| "run_call K g (Hyper_ratio_set h) = GB_Global_hyper_ratio_set h g"
| "run_call K g (Is_csc_set b) = GB_Global_is_csc_set b g"
| "run_call K g (Abort_function_set f) = GB_Global_abort_function_set f g"
| "run_call K g (Malloc_function_set f) = GB_Global_malloc_function_set f g"
| "run_call K g (Calloc_function_set f) = GB_Global_calloc_function_set f g"
| "run_call K g (Realloc_function_set f) = GB_Global_realloc_function_set f g"
| "run_call K g (Free_function_set f) = GB_Global_free_function_set f g"
| "run_call K g (Malloc_is_thread_safe_set b) = GB_Global_malloc_is_thread_safe_set b g"
| "run_call K g (Malloc_tracking_set b) = GB_Global_malloc_tracking_set b g"
| "run_call K g Nmalloc_clear = GB_Global_nmalloc_clear g"
| "run_call K g Nmalloc_increment = snd (GB_Global_nmalloc_increment g)"
| "run_call K g Nmalloc_decrement = snd (GB_Global_nmalloc_decrement g)"
| "run_call K g (Malloc_debug_set b) = GB_Global_malloc_debug_set b g"
| "run_call K g (Malloc_debug_count_set n) = GB_Global_malloc_debug_count_set n g"
| "run_call K g Malloc_debug_count_decrement = snd (GB_Global_malloc_debug_count_decrement g)"
| "run_call K g Inuse_clear = GB_Global_inuse_clear g"
| "run_call K g (Inuse_increment s) = GB_Global_inuse_increment s g"
| "run_call K g (Inuse_decrement s) = GB_Global_inuse_decrement s g"
| "run_call K g (Hack_set h) = GB_Global_hack_set h g"
| "run_call K g (Burble_set b) = GB_Global_burble_set b g"
| "run_call K g (Print_one_based_set b) = GB_Global_print_one_based_set b g"
| "run_call K g (Print_format_set f) = GB_Global_print_format_set f g"

definition run_calls :: "build_constants \<Rightarrow> global_call list \<Rightarrow> GB_Global_struct" where
  "run_calls K cs = foldl (run_call K) (GB_Global K) cs"

text \<open>The calls that replace a member of the allocator function set or its flag.\<close>

fun replaces_allocator :: "global_call \<Rightarrow> bool" where
  "replaces_allocator (Malloc_function_set f) = True"
| "replaces_allocator (Calloc_function_set f) = True"
| "replaces_allocator (Realloc_function_set f) = True"
| "replaces_allocator (Free_function_set f) = True"
| "replaces_allocator (Malloc_is_thread_safe_set b) = True"
| "replaces_allocator _ = False"

subsection \<open>The allocator indirection\<close>

text \<open>
  What the program does to the outside world, in the order it does it: entering and
  leaving the critical section, and calling through one of the four function pointers.
\<close>

datatype event = Enter_critical | Leave_critical | Invoke fn_ptr "size_t list"

text \<open>
  A \<open>void *\<close> is an address or \<open>NULL\<close> (\<open>None\<close>). The functions behind the pointers
  are the caller's: they are parameters of the model, acting on a heap \<open>'h\<close> of their own.
\<close>

record 'h allocator =
  run_malloc :: "fn_ptr \<Rightarrow> size_t \<Rightarrow> 'h \<Rightarrow> addr option \<times> 'h"
  run_calloc :: "fn_ptr \<Rightarrow> size_t \<Rightarrow> size_t \<Rightarrow> 'h \<Rightarrow> addr option \<times> 'h"
  run_realloc :: "fn_ptr \<Rightarrow> addr option \<Rightarrow> size_t \<Rightarrow> 'h \<Rightarrow> addr option \<times> 'h"
  run_free :: "fn_ptr \<Rightarrow> addr option \<Rightarrow> 'h \<Rightarrow> 'h"

text \<open>The argument of an \<open>Invoke\<close> event that stands for a pointer.\<close>

definition ptr_arg :: "addr option \<Rightarrow> size_t" where
  "ptr_arg p = (case p of None \<Rightarrow> 0 | Some a \<Rightarrow> of_nat a)"

text \<open>
  Modelled from the spec: the file \<open>GB_critical_section.c\<close>, included where the
  allocator is not thread-safe, is not among the sources. The spec has the call "wrapped
  in a mutual-exclusion critical section shared process-wide": the section is entered,
  the statement \<open>GB_CRITICAL_SECTION\<close> runs, the section is left. The including functions
  declare a variable \<open>ok\<close> for the file to use and return \<open>NULL\<close> when it is false; what
  the file leaves there is a parameter, \<open>sync\<close>: whether the section was entered and
  left without error.
\<close>

definition GB_critical_section ::
  "bool \<Rightarrow> bool \<Rightarrow> ('h \<Rightarrow> 'r \<times> 'h \<times> event list) \<Rightarrow> 'h \<Rightarrow> bool \<times> 'r \<times> 'h \<times> event list" where
  "GB_critical_section sync ok body h =
     (case body h of (r, h', es) \<Rightarrow> (ok \<and> sync, r, h', Enter_critical # es @ [Leave_critical]))"

definition GB_Global_malloc_function ::
  "'h allocator \<Rightarrow> bool \<Rightarrow> GB_Global_struct \<Rightarrow> size_t \<Rightarrow> 'h \<Rightarrow>
     addr option \<times> 'h \<times> event list" where
  "GB_Global_malloc_function M sync g sz h =
     (let ok = True;
          call = (\<lambda>h. case run_malloc M (malloc_function g) sz h of
                         (p, h') \<Rightarrow> (p, h', [Invoke (malloc_function g) [sz]]))
      in if malloc_is_thread_safe g
         then (case call h of (p, h', es) \<Rightarrow> ((if ok then p else None), h', es))
         else (case GB_critical_section sync ok call h of
                 (ok', p, h', es) \<Rightarrow> ((if ok' then p else None), h', es)))"

definition GB_Global_calloc_function ::
  "'h allocator \<Rightarrow> bool \<Rightarrow> GB_Global_struct \<Rightarrow> size_t \<Rightarrow> size_t \<Rightarrow> 'h \<Rightarrow>
     addr option \<times> 'h \<times> event list" where
  "GB_Global_calloc_function M sync g cnt sz h =
     (let ok = True;
          call = (\<lambda>h. case run_calloc M (calloc_function g) cnt sz h of
                         (p, h') \<Rightarrow> (p, h', [Invoke (calloc_function g) [cnt, sz]]))
      in if malloc_is_thread_safe g
         then (case call h of (p, h', es) \<Rightarrow> ((if ok then p else None), h', es))
         else (case GB_critical_section sync ok call h of
                 (ok', p, h', es) \<Rightarrow> ((if ok' then p else None), h', es)))"

definition GB_Global_realloc_function ::
  "'h allocator \<Rightarrow> bool \<Rightarrow> GB_Global_struct \<Rightarrow> addr option \<Rightarrow> size_t \<Rightarrow> 'h \<Rightarrow>
     addr option \<times> 'h \<times> event list" where
  "GB_Global_realloc_function M sync g p sz h =
     (let ok = True;
          call = (\<lambda>h. case run_realloc M (realloc_function g) p sz h of
                         (pnew, h') \<Rightarrow> (pnew, h', [Invoke (realloc_function g) [ptr_arg p, sz]]))
      in if malloc_is_thread_safe g
         then (case call h of (pnew, h', es) \<Rightarrow> ((if ok then pnew else None), h', es))
         else (case GB_critical_section sync ok call h of
                 (ok', pnew, h', es) \<Rightarrow> ((if ok' then pnew else None), h', es)))"

text \<open>\<open>GB_Global_free_function\<close> returns nothing: \<open>ok\<close> is not read.\<close>

definition GB_Global_free_function ::
  "'h allocator \<Rightarrow> bool \<Rightarrow> GB_Global_struct \<Rightarrow> addr option \<Rightarrow> 'h \<Rightarrow> 'h \<times> event list" where
  "GB_Global_free_function M sync g p h =
     (let ok = True;
          call = (\<lambda>h. ((), run_free M (free_function g) p h,
                         [Invoke (free_function g) [ptr_arg p]]))
      in if malloc_is_thread_safe g
         then (case call h of (u, h', es) \<Rightarrow> (h', es))
         else (case GB_critical_section sync ok call h of (ok', u, h', es) \<Rightarrow> (h', es)))"

section \<open>Generated kernels (\<open>Source/Generated\<close>)\<close>

text \<open>
  \<open>GrB_Info\<close> is declared in \<open>GraphBLAS.h\<close>, which is not among the sources; these are
  the values the sources and the error taxonomy of the spec name.
\<close>

datatype GrB_Info = GrB_SUCCESS | GrB_NO_VALUE | GrB_DOMAIN_MISMATCH | GrB_DIMENSION_MISMATCH
  | GrB_OUT_OF_MEMORY | GrB_INSUFFICIENT_SPACE | GrB_PANIC

text \<open>
  The compile-time switches of \<open>GB_control.h\<close> (not among the sources) that the
  \<open>GB_DISABLE\<close> conditions of the two unary kernels read: parameters of the model.
\<close>

record GB_control =
  GxB_NO_IDENTITY :: bool
  GxB_NO_LOG1P :: bool
  GxB_NO_INT8 :: bool
  GxB_NO_FC32 :: bool
  GxB_NO_FC64 :: bool

text \<open>A complex number is its real and its imaginary part.\<close>

type_synonym GxB_FC32_t = "float \<times> float"
type_synonym GxB_FC64_t = "double \<times> double"

definition creal :: "GxB_FC64_t \<Rightarrow> double" where
  "creal z = fst z"

text \<open>
  The loop \<open>for (p = 0 ; p < anz ; p++) { GB_CAST_OP (p, p) ; }\<close> that both unary
  kernels share, with the three macros it expands as parameters: \<open>GB_GETA\<close> reads entry
  \<open>pA\<close> of \<open>Ax\<close>, \<open>GB_CAST\<close> typecasts it, \<open>GB_OP\<close> applies the operator and the result is
  stored in \<open>Cx [pC]\<close>. \<open>Cx\<close> and \<open>Ax\<close> may be aliased, so \<open>GB_GETA\<close> is given the present
  contents of \<open>Cx\<close>: it reads them when \<open>Ax\<close> is the same array and ignores them
  otherwise. The iterations are independent of one another (iteration \<open>p\<close> reads and
  writes position \<open>p\<close> only), so the OpenMP loop computes what this sequential one does.
\<close>

function GB_unop_loop ::
  "('c list \<Rightarrow> nat \<Rightarrow> 'a) \<Rightarrow> ('a \<Rightarrow> 'z) \<Rightarrow> ('z \<Rightarrow> 'c) \<Rightarrow> int \<Rightarrow> int \<Rightarrow> 'c list \<Rightarrow> 'c list" where
  "GB_unop_loop GETA CAST OP p anz Cx =
     (if p < anz
      then GB_unop_loop GETA CAST OP (p + 1) anz (Cx[nat p := OP (CAST (GETA Cx (nat p)))])
      else Cx)"
  by pat_completeness auto
termination
  by (relation "measure (\<lambda>(GETA, CAST, OP, p, anz, Cx). nat (anz - p))") auto

declare GB_unop_loop.simps [simp del]

text \<open>The macro \<open>GB_DISABLE\<close> of each of the two files.\<close>

definition GB_DISABLE_identity_int8_fc64 :: "GB_control \<Rightarrow> bool" where
  "GB_DISABLE_identity_int8_fc64 ctl = (GxB_NO_IDENTITY ctl \<or> GxB_NO_INT8 ctl \<or> GxB_NO_FC64 ctl)"

definition GB_DISABLE_log1p_fc32_fc32 :: "GB_control \<Rightarrow> bool" where
  "GB_DISABLE_log1p_fc32_fc32 ctl = (GxB_NO_LOG1P ctl \<or> GxB_NO_FC32 ctl)"

text \<open>
  \<open>GB_unop__identity_int8_fc64\<close>. The typecast \<open>GB_cast_to_int8_t\<close> is defined in a
  header that is not among the sources: a parameter. \<open>Cx\<close> (\<open>int8_t\<close>) and \<open>Ax\<close>
  (\<open>GxB_FC64_t\<close>) have entries of different types, hence are different arrays.
\<close>

definition GB_unop__identity_int8_fc64 ::
  "GB_control \<Rightarrow> (double \<Rightarrow> 8 word) \<Rightarrow> 8 word list \<Rightarrow> GxB_FC64_t list \<Rightarrow> int \<Rightarrow> int \<Rightarrow>
     GrB_Info \<times> 8 word list" where
  "GB_unop__identity_int8_fc64 ctl GB_cast_to_int8_t Cx Ax anz nthreads =
     (if GB_DISABLE_identity_int8_fc64 ctl
      then (GrB_NO_VALUE, Cx)
      else (GrB_SUCCESS,
            GB_unop_loop (\<lambda>Cx pA. Ax ! pA) (\<lambda>aij. GB_cast_to_int8_t (creal aij)) (\<lambda>x. x)
              0 anz Cx))"

text \<open>
  \<open>GB_unop__log1p_fc32_fc32\<close>. The operator \<open>GB_clog1pf\<close> is defined in a header that
  is not among the sources: a parameter. \<open>Cx\<close> and \<open>Ax\<close> have the same type; \<open>Ax = None\<close>
  stands for a call in which the caller passes the same array for both.
\<close>

definition GB_unop__log1p_fc32_fc32 ::
  "GB_control \<Rightarrow> (GxB_FC32_t \<Rightarrow> GxB_FC32_t) \<Rightarrow> GxB_FC32_t list \<Rightarrow> GxB_FC32_t list option \<Rightarrow>
     int \<Rightarrow> int \<Rightarrow> GrB_Info \<times> GxB_FC32_t list" where
  "GB_unop__log1p_fc32_fc32 ctl GB_clog1pf Cx Ax anz nthreads =
     (if GB_DISABLE_log1p_fc32_fc32 ctl
      then (GrB_NO_VALUE, Cx)
      else (GrB_SUCCESS,
            GB_unop_loop (\<lambda>Cx pA. case Ax of None \<Rightarrow> Cx ! pA | Some Ax \<Rightarrow> Ax ! pA)
              (\<lambda>aij. aij) GB_clog1pf 0 anz Cx))"

text \<open>
  \<open>GB_tran__identity_int8_fc64\<close> and \<open>GB_tran__log1p_fc32_fc32\<close>. What they do when
  enabled is the included file \<open>GB_unaryop_transpose.c\<close>, which is not among the
  sources: a parameter, acting on the matrix \<open>C\<close> (the other arguments are its inputs).
\<close>

definition GB_tran__identity_int8_fc64 :: "GB_control \<Rightarrow> ('m \<Rightarrow> 'm) \<Rightarrow> 'm \<Rightarrow> GrB_Info \<times> 'm" where
  "GB_tran__identity_int8_fc64 ctl GB_unaryop_transpose C =
     (if GB_DISABLE_identity_int8_fc64 ctl then (GrB_NO_VALUE, C)
      else (GrB_SUCCESS, GB_unaryop_transpose C))"

definition GB_tran__log1p_fc32_fc32 :: "GB_control \<Rightarrow> ('m \<Rightarrow> 'm) \<Rightarrow> 'm \<Rightarrow> GrB_Info \<times> 'm" where
  "GB_tran__log1p_fc32_fc32 ctl GB_unaryop_transpose C =
     (if GB_DISABLE_log1p_fc32_fc32 ctl then (GrB_NO_VALUE, C)
      else (GrB_SUCCESS, GB_unaryop_transpose C))"

text \<open>
  What both ways of reading \<open>Ax\<close> have in common: the value read at a position
  depends on the array given only through its entry at that position.
\<close>

definition reads_own_entry :: "('c list \<Rightarrow> nat \<Rightarrow> 'a) \<Rightarrow> bool" where
  "reads_own_entry GETA =
     (\<forall>C C' i. length C' = length C \<and> C' ! i = C ! i \<longrightarrow> GETA C' i = GETA C i)"

subsection \<open>The generic kernel and the dispatch\<close>

text \<open>
  Modelled from the spec: the generic kernel is not among the sources. It "performs the
  same computation through an indirect operator call per element": with \<open>cast\<close> the
  typecast function and \<open>fop\<close> the operator's function, both called through pointers,
  \<open>Cx[i] = fop (cast (Ax[i]))\<close> for the \<open>anz\<close> entries of the value range, and it
  succeeds. The entries of \<open>Cx\<close> beyond the range are not written.
\<close>

definition GB_apply_generic ::
  "('a \<Rightarrow> 'z) \<Rightarrow> ('z \<Rightarrow> 'c) \<Rightarrow> 'c list \<Rightarrow> 'a list \<Rightarrow> int \<Rightarrow> GrB_Info \<times> 'c list" where
  "GB_apply_generic cast fop Cx Ax anz =
     (GrB_SUCCESS, map (\<lambda>aij. fop (cast aij)) (take (nat anz) Ax) @ drop (nat anz) Cx)"

text \<open>
  Modelled from the spec: the caller of the kernels is not among the sources. "When a
  kernel is disabled or the requested (type, operator) pair is outside the built-in
  catalog, execution falls back to the generic kernel": \<open>specialized = None\<close> is a pair
  outside the catalog; a specialized kernel that answers \<open>GrB_NO_VALUE\<close> is disabled.
\<close>

definition GB_apply_dispatch ::
  "('c list \<Rightarrow> GrB_Info \<times> 'c list) option \<Rightarrow> ('c list \<Rightarrow> GrB_Info \<times> 'c list) \<Rightarrow> 'c list \<Rightarrow>
     GrB_Info \<times> 'c list" where
  "GB_apply_dispatch specialized generic Cx =
     (case specialized of
        None \<Rightarrow> generic Cx
      | Some k \<Rightarrow>
          (case k Cx of
             (GrB_NO_VALUE, Cx') \<Rightarrow> generic Cx'
           | (info, Cx') \<Rightarrow> (info, Cx')))"

section \<open>Matrices\<close>

datatype GrB_Type = GrB_BOOL | GrB_INT8 | GrB_UINT8 | GrB_FP32 | GrB_FP64 | GxB_FC32 | GxB_FC64
  | user_type nat

text \<open>
  Modelled from the spec: the matrix structure is declared in a header that is not
  among the sources. The sources read its fields \<open>type\<close>, \<open>vlen\<close>, \<open>vdim\<close> and
  \<open>is_csc\<close> (here \<open>mtype\<close> and \<open>csc\<close>, since \<open>is_csc\<close> names the global default); the
  comment of \<open>GB_Global.c\<close> has "the links are in the matrices themselves" and "the prev
  and next pointers it contains". The spec adds the values (\<open>entries\<close>, by row and column),
  the "unflushed incremental element updates" (\<open>pending\<close>, oldest first) and membership in
  the pending set (\<open>enqueued\<close>).
\<close>

record GB_Matrix_opaque =
  mtype :: GrB_Type
  vlen :: int
  vdim :: int
  csc :: bool
  entries :: "(nat \<times> nat) \<rightharpoonup> double"
  pending :: "((nat \<times> nat) \<times> double) list"
  queue_next :: "addr option"
  queue_prev :: "addr option"
  enqueued :: bool

text \<open>
  Modelled from the spec: the macros \<open>GB_NROWS\<close> and \<open>GB_NCOLS\<close> are not among the
  sources. A matrix has "dimensions (rows, cols)" and is stored "compressed-by-row" or
  "compressed-by-column": \<open>vlen\<close> is the length of a stored vector and \<open>vdim\<close> the number
  of vectors, so the rows of a matrix held by column are counted by \<open>vlen\<close>.
\<close>

definition GB_NROWS :: "GB_Matrix_opaque \<Rightarrow> int" where
  "GB_NROWS A = (if csc A then vlen A else vdim A)"

definition GB_NCOLS :: "GB_Matrix_opaque \<Rightarrow> int" where
  "GB_NCOLS A = (if csc A then vdim A else vlen A)"

section \<open>The pending set and \<open>GrB_wait\<close>\<close>

text \<open>
  The global state together with the matrices that live at the addresses the queue
  links hold, and a count of the assemblies done so far (the "materialization work").
\<close>

record engine =
  global :: GB_Global_struct
  matrices :: "addr \<rightharpoonup> GB_Matrix_opaque"
  materializations :: nat

text \<open>
  Modelled from the spec: the function that finishes one matrix is not among the
  sources. "Materialization: applying a matrix's queued incremental updates into its
  compressed storage representation": the updates are applied oldest first and none is
  left.
\<close>

definition assemble :: "GB_Matrix_opaque \<Rightarrow> GB_Matrix_opaque" where
  "assemble A =
     A\<lparr>entries := foldl (\<lambda>m (ij, x). m(ij \<mapsto> x)) (entries A) (pending A), pending := []\<rparr>"

text \<open>
  Modelled from the spec: the queue functions are not among the sources. Insertion is
  "O(1) insertion per matrix" at the head of the list held by \<open>queue_head\<close>; a matrix
  that is in the list is not inserted again ("present exactly once"). A pointer to no
  matrix is a fault: \<open>None\<close>.
\<close>

definition GB_queue_insert :: "addr \<Rightarrow> engine \<Rightarrow> engine option" where
  "GB_queue_insert a s =
     (case matrices s a of
        None \<Rightarrow> None
      | Some A \<Rightarrow>
          if pending A = [] \<or> enqueued A then Some s
          else
            (let Head = GB_Global_queue_head_get (global s);
                 A' = A\<lparr>queue_next := Head, queue_prev := None, enqueued := True\<rparr>;
                 s1 = s\<lparr>matrices := (matrices s)(a \<mapsto> A')\<rparr>
             in case (case Head of
                        None \<Rightarrow> Some s1
                      | Some b \<Rightarrow>
                          (case matrices s1 b of
                             None \<Rightarrow> None
                           | Some B \<Rightarrow>
                               Some (s1\<lparr>matrices := (matrices s1)(b \<mapsto> B\<lparr>queue_prev := Some a\<rparr>)\<rparr>)))
                of None \<Rightarrow> None
                 | Some s2 \<Rightarrow>
                     Some (s2\<lparr>global := GB_Global_queue_head_set (Some a) (global s2)\<rparr>)))"

text \<open>
  Modelled from the spec: removal of the first matrix of the list, "O(1) removal per
  matrix": the head moves to the next matrix, whose back link is cleared, and the
  removed matrix is "removed from the Pending set". The result is the address of the
  removed matrix, \<open>None\<close> when the list is empty.
\<close>

definition GB_queue_remove_head :: "engine \<Rightarrow> (addr option \<times> engine) option" where
  "GB_queue_remove_head s =
     (case GB_Global_queue_head_get (global s) of
        None \<Rightarrow> Some (None, s)
      | Some a \<Rightarrow>
          (case matrices s a of
             None \<Rightarrow> None
           | Some A \<Rightarrow>
               (let Next = queue_next A;
                    s1 = s\<lparr>global := GB_Global_queue_head_set Next (global s)\<rparr>
                in case (case Next of
                           None \<Rightarrow> Some s1
                         | Some b \<Rightarrow>
                             (case matrices s1 b of
                                None \<Rightarrow> None
                              | Some B \<Rightarrow>
                                  Some (s1\<lparr>matrices := (matrices s1)(b \<mapsto> B\<lparr>queue_prev := None\<rparr>)\<rparr>)))
                   of None \<Rightarrow> None
                    | Some s2 \<Rightarrow>
                        (case matrices s2 a of
                           None \<Rightarrow> None
                         | Some A2 \<Rightarrow>
                             Some (Some a, s2\<lparr>matrices := (matrices s2)
                               (a \<mapsto> A2\<lparr>queue_next := None, queue_prev := None,
                                          enqueued := False\<rparr>)\<rparr>)))))"

text \<open>
  Modelled from the spec: the materialization of the matrix at an address, counted as
  one unit of work.
\<close>

definition GB_wait :: "addr \<Rightarrow> engine \<Rightarrow> engine option" where
  "GB_wait a s =
     (case matrices s a of
        None \<Rightarrow> None
      | Some A \<Rightarrow>
          Some (s\<lparr>matrices := (matrices s)(a \<mapsto> assemble A),
                  materializations := Suc (materializations s)\<rparr>))"

text \<open>
  Modelled from the spec: \<open>GrB_wait\<close> is not among the sources. It "traverses the
  entire Pending set once, materializes every matrix found there, and leaves the set
  empty"; the comment of \<open>GB_Global.c\<close> says the same of the list. The loop takes the
  first matrix off the list and finishes it, until the list is empty. A loop that does
  not end, or a fault, is \<open>None\<close>.
\<close>

partial_function (option) GrB_wait :: "engine \<Rightarrow> (GrB_Info \<times> engine) option" where
  "GrB_wait s =
     (case GB_queue_remove_head s of
        None \<Rightarrow> None
      | Some (None, s1) \<Rightarrow> Some (GrB_SUCCESS, s1)
      | Some (Some a, s1) \<Rightarrow>
          (case GB_wait a s1 of
             None \<Rightarrow> None
           | Some s2 \<Rightarrow> GrB_wait s2))"

text \<open>
  Modelled from the spec: an element update. "A SparseMatrix accumulates pending
  element updates (which joins the Pending set on the first such update), and is
  materialized either lazily or eagerly, immediately after each update, depending on
  GlobalState's execution mode."
\<close>

definition setElement :: "addr \<Rightarrow> nat \<times> nat \<Rightarrow> double \<Rightarrow> engine \<Rightarrow> engine option" where
  "setElement a ij x s =
     (case matrices s a of
        None \<Rightarrow> None
      | Some A \<Rightarrow>
          (let s1 = s\<lparr>matrices := (matrices s)(a \<mapsto> A\<lparr>pending := pending A @ [(ij, x)]\<rparr>)\<rparr>
           in if GB_Global_mode_get (global s1) = GrB_BLOCKING \<and> \<not> enqueued A
              then GB_wait a s1
              else GB_queue_insert a s1))"

text \<open>
  The list of addresses met by following \<open>queue_next\<close> from a pointer up to \<open>NULL\<close>:
  \<open>queue_path h p as\<close> holds when that list is \<open>as\<close> and a matrix lives at each address.
\<close>

fun queue_path :: "(addr \<rightharpoonup> GB_Matrix_opaque) \<Rightarrow> addr option \<Rightarrow> addr list \<Rightarrow> bool" where
  "queue_path h p [] = (p = None)"
| "queue_path h p (a # as) =
     (p = Some a \<and> (case h a of None \<Rightarrow> False | Some A \<Rightarrow> queue_path h (queue_next A) as))"

text \<open>A matrix once \<open>GrB_wait\<close> is done with it: assembled and out of the list.\<close>

definition finished :: "GB_Matrix_opaque \<Rightarrow> GB_Matrix_opaque" where
  "finished A = (assemble A)\<lparr>queue_next := None, queue_prev := None, enqueued := False\<rparr>"

text \<open>A matrix whose back link has been cleared.\<close>

definition unlinked :: "GB_Matrix_opaque \<Rightarrow> GB_Matrix_opaque" where
  "unlinked B = B\<lparr>queue_prev := None\<rparr>"

text \<open>
  The state after one round of the loop of \<open>GrB_wait\<close>, when the first matrix of the
  list is \<open>A\<close> at address \<open>a\<close>; and the state after all of it, when the list is \<open>as\<close>.
\<close>

definition after_first :: "engine \<Rightarrow> addr \<Rightarrow> GB_Matrix_opaque \<Rightarrow> engine" where
  "after_first s a A =
     s\<lparr>global := (global s)\<lparr>queue_head := queue_next A\<rparr>,
       matrices := (\<lambda>c. if c = a then Some (finished A)
                         else if queue_next A = Some c then map_option unlinked (matrices s c)
                         else matrices s c),
       materializations := Suc (materializations s)\<rparr>"

definition after_wait :: "engine \<Rightarrow> addr list \<Rightarrow> engine" where
  "after_wait s as =
     s\<lparr>global := (global s)\<lparr>queue_head := None\<rparr>,
       matrices := (\<lambda>c. if c \<in> set as then map_option finished (matrices s c) else matrices s c),
       materializations := materializations s + length as\<rparr>"

section \<open>The multiply entry point\<close>

text \<open>
  The sources hold two callers of the multiply and not the multiply itself:
  \<open>GB_mex_mxm_alias.c\<close> calls \<open>GrB_mxm\<close>, and \<open>GB_mex_AxB.c\<close> calls the engine below it
  after testing the inner dimensions itself. The values of \<open>GrB_Desc_Value\<close> that select
  a method are listed in a comment of the latter: 0 default, 1001 Gustavson, 1002 heap,
  1003 dot, 1004 hash, 1005 saxpy.
\<close>

definition GxB_DEFAULT_method :: int where "GxB_DEFAULT_method = 0"
definition GxB_AxB_GUSTAVSON :: int where "GxB_AxB_GUSTAVSON = 1001"
definition GxB_AxB_HEAP :: int where "GxB_AxB_HEAP = 1002"
definition GxB_AxB_DOT :: int where "GxB_AxB_DOT = 1003"
definition GxB_AxB_HASH :: int where "GxB_AxB_HASH = 1004"
definition GxB_AxB_SAXPY :: int where "GxB_AxB_SAXPY = 1005"

text \<open>
  Modelled from the spec: the inner dimensions "after applying the transpose flags":
  the columns of \<open>op (A)\<close> and the rows of \<open>op (B)\<close>, where \<open>op\<close> is the transpose or the
  identity as the flag says.
\<close>

definition inner_A :: "bool \<Rightarrow> GB_Matrix_opaque \<Rightarrow> int" where
  "inner_A transposeA A = (if transposeA then GB_NROWS A else GB_NCOLS A)"

definition inner_B :: "bool \<Rightarrow> GB_Matrix_opaque \<Rightarrow> int" where
  "inner_B transposeB B = (if transposeB then GB_NCOLS B else GB_NROWS B)"

text \<open>
  Modelled from the spec: a semiring, as far as the preconditions of the multiply read
  it: the input types of its multiply operator and its output type, which is the type
  of the monoid.
\<close>

record GrB_Semiring_opaque =
  multiply_xtype :: GrB_Type
  multiply_ytype :: GrB_Type
  multiply_ztype :: GrB_Type

text \<open>
  Modelled from the spec: an element type is an acceptable input of an operator when
  it is the operator's input type or "built-in implicit casts" lead to it; a user-defined
  type is cast to nothing.
\<close>

fun built_in :: "GrB_Type \<Rightarrow> bool" where
  "built_in (user_type t) = False"
| "built_in _ = True"

definition acceptable :: "GrB_Type \<Rightarrow> GrB_Type \<Rightarrow> bool" where
  "acceptable t u = (t = u \<or> (built_in t \<and> built_in u))"

text \<open>
  Modelled from the spec: the removal of one matrix from the pending list, "O(1)
  removal per matrix": its neighbours are linked to each other (the head of the list
  takes the place of a missing predecessor) and its own links are cleared.
\<close>

definition GB_queue_remove :: "addr \<Rightarrow> engine \<Rightarrow> engine option" where
  "GB_queue_remove a s =
     (case matrices s a of
        None \<Rightarrow> None
      | Some A \<Rightarrow>
          if \<not> enqueued A then Some s
          else
            (let Prev = queue_prev A; Next = queue_next A
             in case (case Prev of
                        None \<Rightarrow> Some (s\<lparr>global := GB_Global_queue_head_set Next (global s)\<rparr>)
                      | Some p \<Rightarrow>
                          (case matrices s p of
                             None \<Rightarrow> None
                           | Some Pm \<Rightarrow>
                               Some (s\<lparr>matrices := (matrices s)(p \<mapsto> Pm\<lparr>queue_next := Next\<rparr>)\<rparr>)))
                of None \<Rightarrow> None
                 | Some s1 \<Rightarrow>
                     (case (case Next of
                              None \<Rightarrow> Some s1
                            | Some n \<Rightarrow>
                                (case matrices s1 n of
                                   None \<Rightarrow> None
                                 | Some Nm \<Rightarrow>
                                     Some (s1\<lparr>matrices :=
                                       (matrices s1)(n \<mapsto> Nm\<lparr>queue_prev := Prev\<rparr>)\<rparr>)))
                      of None \<Rightarrow> None
                       | Some s2 \<Rightarrow>
                           (case matrices s2 a of
                              None \<Rightarrow> None
                            | Some A2 \<Rightarrow>
                                Some (s2\<lparr>matrices := (matrices s2)
                                  (a \<mapsto> A2\<lparr>queue_next := None, queue_prev := None,
                                             enqueued := False\<rparr>)\<rparr>)))))"

text \<open>
  Modelled from the spec: "if either A or B is still pending, it is materialized first
  (forced flush from the Pending set)"; operations other than \<open>wait\<close> "force
  materialization of only the specific operand(s) they are about to use".
\<close>

definition flush :: "addr \<Rightarrow> engine \<Rightarrow> engine option" where
  "flush a s =
     (case matrices s a of
        None \<Rightarrow> None
      | Some A \<Rightarrow>
          if pending A = [] then Some s
          else (case GB_queue_remove a s of None \<Rightarrow> None | Some s1 \<Rightarrow> GB_wait a s1))"

text \<open>
  What the multiply does once its preconditions hold: it "selects a multiplication
  algorithm, executes it, and produces the result matrix", by a strategy the hint names
  or "an internal cost heuristic" picks, and "reports the strategy actually used". The
  strategies and the heuristic are not described further: a parameter, which is given
  the arguments of the multiply and the state, and returns the result, the strategy used
  and the new state.
\<close>

type_synonym execution =
  "addr \<Rightarrow> addr option \<Rightarrow> (double \<Rightarrow> double \<Rightarrow> double) option \<Rightarrow> GrB_Semiring_opaque \<Rightarrow>
     addr \<Rightarrow> addr \<Rightarrow> bool \<Rightarrow> bool \<Rightarrow> int \<Rightarrow> engine \<Rightarrow> (GrB_Info \<times> int) \<times> engine"

text \<open>
  Modelled from the spec: \<open>multiply (outputHandle, mask?, accumulateOp?, semiring, A, B,
  transposeA, transposeB, methodHint) -> (Result, methodUsed)\<close> is not among the sources.
  Its preconditions are taken in the order the spec gives them: "inner dimensions must
  agree after applying the transpose flags" (else \<open>DimensionMismatch\<close>); "A and B element
  types must be acceptable inputs to the semiring's multiply operator" (else
  \<open>DomainMismatch\<close>); "if either A or B is still pending, it is materialized first".
  "Precondition errors are detected and returned immediately without performing partial
  work." The matrices are given by their addresses; an address where no matrix lives is
  a fault (\<open>None\<close>). No strategy is reported for a multiply that was not run.
\<close>

definition multiply ::
  "execution \<Rightarrow> addr \<Rightarrow> addr option \<Rightarrow> (double \<Rightarrow> double \<Rightarrow> double) option \<Rightarrow>
     GrB_Semiring_opaque \<Rightarrow> addr \<Rightarrow> addr \<Rightarrow> bool \<Rightarrow> bool \<Rightarrow> int \<Rightarrow> engine \<Rightarrow>
     ((GrB_Info \<times> int option) \<times> engine) option" where
  "multiply execute outputHandle Mask accumulateOp semiring a b transposeA transposeB methodHint s =
     (case (matrices s a, matrices s b) of
        (Some A, Some B) \<Rightarrow>
          if inner_A transposeA A \<noteq> inner_B transposeB B
          then Some ((GrB_DIMENSION_MISMATCH, None), s)
          else if \<not> (acceptable (mtype A) (multiply_xtype semiring) \<and>
                       acceptable (mtype B) (multiply_ytype semiring))
          then Some ((GrB_DOMAIN_MISMATCH, None), s)
          else
            (case flush a s of
               None \<Rightarrow> None
             | Some s1 \<Rightarrow>
                 (case flush b s1 of
                    None \<Rightarrow> None
                  | Some s2 \<Rightarrow>
                      (case execute outputHandle Mask accumulateOp semiring a b
                              transposeA transposeB methodHint s2 of
                         ((info, methodUsed), s3) \<Rightarrow> Some ((info, Some methodUsed), s3))))
      | _ \<Rightarrow> None)"

section \<open>The demo \<open>dpagerank2\<close>\<close>



















subsection \<open>Constants for the examples\<close>

text \<open>Every kernel enabled; the two complex types switched off.\<close>

definition all_enabled :: GB_control where
  "all_enabled = \<lparr> GxB_NO_IDENTITY = False, GxB_NO_LOG1P = False, GxB_NO_INT8 = False,
     GxB_NO_FC32 = False, GxB_NO_FC64 = False \<rparr>"

definition no_fc :: GB_control where
  "no_fc = \<lparr> GxB_NO_IDENTITY = False, GxB_NO_LOG1P = False, GxB_NO_INT8 = False,
     GxB_NO_FC32 = True, GxB_NO_FC64 = True \<rparr>"

text \<open>
  A typecast and an operator to run the kernels with: finite values in the range of
  \<open>int8_t\<close> are truncated towards zero, and the stand-in for the complex \<open>log1p\<close> swaps
  the two parts of its argument.
\<close>

definition sample_cast_to_int8 :: "double \<Rightarrow> 8 word" where
  "sample_cast_to_int8 d =
     (case d of
        Fin r \<Rightarrow> if r \<le> - 128 then - 128 else if 127 \<le> r then 127
                 else word_of_int (if 0 \<le> r then \<lfloor>r\<rfloor> else \<lceil>r\<rceil>)
      | PInf \<Rightarrow> 127
      | MInf \<Rightarrow> - 128
      | NaN \<Rightarrow> 0)"

definition sample_op :: "GxB_FC32_t \<Rightarrow> GxB_FC32_t" where
  "sample_op z = (snd z, fst z)"

text \<open>An allocator that hands out the next address and cannot grow a block.\<close>

definition sample_allocator :: "nat allocator" where
  "sample_allocator =
     \<lparr> run_malloc = (\<lambda>f sz h. (Some (Suc h), Suc h)),
       run_calloc = (\<lambda>f n sz h. (Some (Suc h), Suc h)),
       run_realloc = (\<lambda>f p sz h. (None, h)),
       run_free = (\<lambda>f p h. h) \<rparr>"

text \<open>A matrix of given dimensions, held by column, with no entry.\<close>

definition sample_matrix :: "int \<Rightarrow> int \<Rightarrow> GB_Matrix_opaque" where
  "sample_matrix nrows ncols =
     \<lparr> mtype = GrB_FP64, vlen = nrows, vdim = ncols, csc = True, entries = Map.empty,
       pending = [], queue_next = None, queue_prev = None, enqueued = False \<rparr>"

text \<open>
  The semiring of \<open>double\<close> with plus and times, and an execution that always runs
  Gustavson's method, succeeds, and leaves the output with no entry.
\<close>

definition plus_times_fp64 :: GrB_Semiring_opaque where
  "plus_times_fp64 =
     \<lparr> multiply_xtype = GrB_FP64, multiply_ytype = GrB_FP64, multiply_ztype = GrB_FP64 \<rparr>"

definition sample_execution :: execution where
  "sample_execution outputHandle Mask accumulateOp semiring a b transposeA transposeB methodHint s =
     ((GrB_SUCCESS, GxB_AxB_GUSTAVSON), s)"



definition example_constants :: build_constants where
  "example_constants =
     \<lparr> GB_CHUNK_DEFAULT = Fin 65536, GB_HYPER_DEFAULT = Fin 0.0625,
       GB_FORMAT_DEFAULT = GxB_BY_ROW \<rparr>"

text \<open>
  Two matrices with nothing pending, and the state reached from there by setting two
  elements of the first and one of the second, in non-blocking mode.
\<close>

definition sample_engine :: engine where
  "sample_engine =
     \<lparr> global = GB_Global example_constants,
       matrices = [10 \<mapsto> sample_matrix 2 2, 20 \<mapsto> sample_matrix 3 3],
       materializations = 0 \<rparr>"

definition sample_pending :: engine where
  "sample_pending =
     \<lparr> global = (GB_Global example_constants)\<lparr>queue_head := Some 20\<rparr>,
       matrices =
         [10 \<mapsto> (sample_matrix 2 2)\<lparr>pending := [((0, 0), Fin 5), ((0, 1), Fin 6)],
                 queue_next := None, queue_prev := Some 20, enqueued := True\<rparr>,
          20 \<mapsto> (sample_matrix 3 3)\<lparr>pending := [((1, 1), Fin 7)],
                 queue_next := Some 10, queue_prev := None, enqueued := True\<rparr>],
       materializations = 0 \<rparr>"

subsection \<open>Predicates on the global state\<close>

text \<open>The allocator function set and its flag.\<close>

definition allocator_set ::
  "GB_Global_struct \<Rightarrow> fn_ptr \<times> fn_ptr \<times> fn_ptr \<times> fn_ptr \<times> bool" where
  "allocator_set g =
     (malloc_function g, calloc_function g, realloc_function g, free_function g,
      malloc_is_thread_safe g)"

text \<open>The thread-count ceiling and the chunk size are both at least 1.\<close>

definition at_least_1 :: "GB_Global_struct \<Rightarrow> bool" where
  "at_least_1 g = (1 \<le>s nthreads_max g \<and> double_le (Fin 1) (chunk g))"

section \<open>Properties of the global state\<close>

lemmas global_write_defs =
  GB_Global_queue_head_set_def GB_Global_mode_set_def GB_Global_GrB_init_called_set_def
  GB_Global_nthreads_max_set_def GB_Global_chunk_set_def GB_Global_hyper_ratio_set_def
  GB_Global_is_csc_set_def GB_Global_abort_function_set_def GB_Global_malloc_function_set_def
  GB_Global_calloc_function_set_def GB_Global_realloc_function_set_def
  GB_Global_free_function_set_def GB_Global_malloc_is_thread_safe_set_def
  GB_Global_malloc_tracking_set_def GB_Global_nmalloc_clear_def
  GB_Global_nmalloc_increment_def GB_Global_nmalloc_decrement_def
  GB_Global_malloc_debug_set_def GB_Global_malloc_debug_count_set_def
  GB_Global_malloc_debug_count_decrement_def GB_Global_inuse_clear_def
  GB_Global_inuse_increment_def GB_Global_inuse_decrement_def GB_Global_hack_set_def
  GB_Global_burble_set_def GB_Global_print_one_based_set_def GB_Global_print_format_set_def

lemma sint_GB_IMAX: "sint (GB_IMAX x y) = max (sint x) (sint y)"
  by (simp add: GB_IMAX_def word_sless_alt max_def)

lemma GB_IMAX_1_ge: "1 \<le>s GB_IMAX (n :: c_int) 1"
  by (simp add: GB_IMAX_def word_sle_eq word_sless_alt)

lemma GB_IMAX_1_fix: "GB_IMAX (n :: c_int) 1 = n \<longleftrightarrow> 1 \<le>s n"
proof (cases "1 <s n")
  case True
  then show ?thesis
    by (simp add: GB_IMAX_def word_sle_eq word_sless_alt)
next
  case False
  have "(1 = n) = (sint (1 :: c_int) = sint n)"
    by (rule word_eq_iff_signed)
  with False show ?thesis
    by (auto simp add: GB_IMAX_def word_sle_eq word_sless_alt)
qed

lemma fmax_1_ge: "double_le (Fin 1) (fmax c (Fin 1))"
  by (cases c) simp_all

lemma fmax_1_fix: "fmax c (Fin 1) = c \<longleftrightarrow> double_le (Fin 1) c"
  by (cases c) auto

lemma double_le_0_not_ge_1: "double_le c (Fin 0) \<Longrightarrow> \<not> double_le (Fin 1) c"
  by (cases c) simp_all

lemma run_call_allocator_set:
  "\<not> replaces_allocator c \<Longrightarrow> allocator_set (run_call K g c) = allocator_set g"
  by (cases c) (simp_all add: allocator_set_def global_write_defs Let_def)

lemma foldl_run_call_allocator_set:
  "\<forall>c\<in>set cs. \<not> replaces_allocator c \<Longrightarrow>
     allocator_set (foldl (run_call K) g cs) = allocator_set g"
  by (induction cs arbitrary: g) (simp_all add: run_call_allocator_set)

lemma run_call_at_least_1: "at_least_1 g \<Longrightarrow> at_least_1 (run_call K g c)"
  by (cases c) (simp_all add: at_least_1_def global_write_defs Let_def GB_IMAX_1_ge fmax_1_ge)

lemma foldl_run_call_at_least_1: "at_least_1 g \<Longrightarrow> at_least_1 (foldl (run_call K) g cs)"
  by (induction cs arbitrary: g) (simp_all add: run_call_at_least_1)

text \<open>
  Claim C6, as amended. Setting and then getting returns the value set, whatever it
  is, for the execution mode, the hypersparsity threshold and the default storage
  orientation. For the thread-count ceiling it does so exactly when the value is at
  least 1, and for the chunk size exactly when the value is at least 1 (a NaN is not):
  the two setters clamp what they store.
\<close>

theorem get_after_set:
  "GB_Global_mode_get (GB_Global_mode_set m g) = m \<and>
   GB_Global_hyper_ratio_get (GB_Global_hyper_ratio_set h g) = h \<and>
   GB_Global_is_csc_get (GB_Global_is_csc_set b g) = b \<and>
   (GB_Global_nthreads_max_get (GB_Global_nthreads_max_set n g) = n \<longleftrightarrow> 1 \<le>s n) \<and>
   (GB_Global_chunk_get (GB_Global_chunk_set K c g) = c \<longleftrightarrow> double_le (Fin 1) c)"
proof -
  have threads: "GB_Global_nthreads_max_get (GB_Global_nthreads_max_set n g) = n \<longleftrightarrow> 1 \<le>s n"
    by (simp add: GB_Global_nthreads_max_get_def GB_Global_nthreads_max_set_def GB_IMAX_1_fix)
  have chunk: "GB_Global_chunk_get (GB_Global_chunk_set K c g) = c \<longleftrightarrow> double_le (Fin 1) c"
  proof (cases "double_le c (Fin 0)")
    case True
    have "double_le (Fin 1) (fmax (GB_CHUNK_DEFAULT K) (Fin 1))"
      by (rule fmax_1_ge)
    with True have "fmax (GB_CHUNK_DEFAULT K) (Fin 1) \<noteq> c"
      using double_le_0_not_ge_1 by auto
    with True show ?thesis
      by (simp add: GB_Global_chunk_get_def GB_Global_chunk_set_def GxB_DEFAULT_def
          double_le_0_not_ge_1)
  next
    case False
    then show ?thesis
      by (simp add: GB_Global_chunk_get_def GB_Global_chunk_set_def GxB_DEFAULT_def fmax_1_fix)
  qed
  show ?thesis
    using threads chunk
    by (simp add: GB_Global_mode_get_def GB_Global_mode_set_def GB_Global_hyper_ratio_get_def
        GB_Global_hyper_ratio_set_def GB_Global_is_csc_get_def GB_Global_is_csc_set_def)
qed

theorem get_after_set_witness:
  "GB_Global_nthreads_max_get (GB_Global_nthreads_max_set 4 (GB_Global example_constants)) = 4 \<and>
   GB_Global_chunk_get
     (GB_Global_chunk_set example_constants (Fin 4096) (GB_Global example_constants)) = Fin 4096 \<and>
   GB_Global_mode_get (GB_Global_mode_set GrB_BLOCKING (GB_Global example_constants)) = GrB_BLOCKING"
  using get_after_set [of GrB_BLOCKING "GB_Global example_constants" PInf True 4
      example_constants "Fin 4096"]
  by (simp add: word_sle_eq)

text \<open>
  The claim as it is written fails for the two clamped parameters: a ceiling of 0
  threads is read back as 1, and a chunk size of one half is read back as 1.
\<close>

theorem get_after_set_counterexample:
  "GB_Global_nthreads_max_get (GB_Global_nthreads_max_set 0 (GB_Global example_constants)) \<noteq> 0 \<and>
   GB_Global_chunk_get
     (GB_Global_chunk_set example_constants (Fin (1/2)) (GB_Global example_constants)) \<noteq> Fin (1/2)"
  by (simp add: GB_Global_nthreads_max_get_def GB_Global_nthreads_max_set_def GB_IMAX_def
      GB_Global_chunk_get_def GB_Global_chunk_set_def GxB_DEFAULT_def word_sless_alt)

text \<open>
  Claim C7. As long as no caller has replaced a member of the allocator function set
  or its flag, whatever else has been called, the set is the C library's \<open>malloc\<close>,
  \<open>calloc\<close>, \<open>realloc\<close> and \<open>free\<close>, and the flag says it is thread-safe.
\<close>

theorem allocator_defaults:
  assumes "\<forall>c\<in>set cs. \<not> replaces_allocator c"
  shows "malloc_function (run_calls K cs) = libc_malloc \<and>
         calloc_function (run_calls K cs) = libc_calloc \<and>
         realloc_function (run_calls K cs) = libc_realloc \<and>
         free_function (run_calls K cs) = libc_free \<and>
         GB_Global_malloc_is_thread_safe_get (run_calls K cs) = True"
  using foldl_run_call_allocator_set [OF assms, of K "GB_Global K"]
  by (simp add: run_calls_def allocator_set_def GB_Global_def
      GB_Global_malloc_is_thread_safe_get_def)

theorem allocator_defaults_witness:
  "\<not> replaces_allocator (Nthreads_max_set 8) \<and>
   \<not> replaces_allocator (Mode_set GrB_BLOCKING) \<and>
   \<not> replaces_allocator Nmalloc_increment \<and>
   malloc_function
     (run_calls example_constants [Nthreads_max_set 8, Mode_set GrB_BLOCKING, Nmalloc_increment])
     = libc_malloc \<and>
   GB_Global_malloc_is_thread_safe_get
     (run_calls example_constants [Nthreads_max_set 8, Mode_set GrB_BLOCKING, Nmalloc_increment])
     = True"
proof -
  have h: "\<forall>c\<in>set [Nthreads_max_set 8, Mode_set GrB_BLOCKING, Nmalloc_increment].
      \<not> replaces_allocator c"
    by simp
  show ?thesis
    using allocator_defaults [OF h, of example_constants] by simp
qed

text \<open>
  Claim C9. \<open>GB_Global_nthreads_max_set (v)\<close> stores the larger of \<open>v\<close> and 1;
  \<open>GB_Global_chunk_set (c)\<close> stores the default chunk size when \<open>c <= 0\<close> and
  \<open>fmax (c, 1)\<close> otherwise; so, the default chunk size being at least 1, in every state
  the program reaches the two getters return at least 1.
\<close>

theorem threads_and_chunk_at_least_1:
  assumes "double_le (Fin 1) (GB_CHUNK_DEFAULT K)"
  shows "sint (GB_Global_nthreads_max_get (GB_Global_nthreads_max_set v g)) = max (sint v) 1 \<and>
         GB_Global_chunk_get (GB_Global_chunk_set K c g) =
           (if double_le c (Fin 0) then GB_CHUNK_DEFAULT K else fmax c (Fin 1)) \<and>
         1 \<le>s GB_Global_nthreads_max_get (run_calls K cs) \<and>
         double_le (Fin 1) (GB_Global_chunk_get (run_calls K cs))"
proof -
  have "at_least_1 (GB_Global K)"
    using assms by (simp add: at_least_1_def GB_Global_def)
  then have "at_least_1 (run_calls K cs)"
    unfolding run_calls_def by (rule foldl_run_call_at_least_1)
  moreover have "fmax (GB_CHUNK_DEFAULT K) (Fin 1) = GB_CHUNK_DEFAULT K"
    using assms by (simp add: fmax_1_fix)
  ultimately show ?thesis
    by (simp add: at_least_1_def GB_Global_nthreads_max_get_def GB_Global_nthreads_max_set_def
        GB_Global_chunk_get_def GB_Global_chunk_set_def GxB_DEFAULT_def sint_GB_IMAX)
qed

theorem threads_and_chunk_at_least_1_witness:
  "double_le (Fin 1) (GB_CHUNK_DEFAULT example_constants) \<and>
   sint (GB_Global_nthreads_max_get
     (GB_Global_nthreads_max_set (- 3) (GB_Global example_constants))) = 1 \<and>
   GB_Global_chunk_get
     (GB_Global_chunk_set example_constants (Fin (- 2)) (GB_Global example_constants))
     = Fin 65536 \<and>
   GB_Global_chunk_get
     (GB_Global_chunk_set example_constants NaN (GB_Global example_constants)) = Fin 1 \<and>
   1 \<le>s GB_Global_nthreads_max_get
     (run_calls example_constants [Nthreads_max_set 0, Chunk_set (Fin (1/4))])"
proof -
  have h: "double_le (Fin 1) (GB_CHUNK_DEFAULT example_constants)"
    by (simp add: example_constants_def)
  show ?thesis
    using h
      threads_and_chunk_at_least_1 [OF h, of "- 3" "GB_Global example_constants" "Fin (- 2)"
        "[Nthreads_max_set 0, Chunk_set (Fin (1/4))]"]
      threads_and_chunk_at_least_1 [OF h, of 0 "GB_Global example_constants" NaN "[]"]
    by (simp add: example_constants_def)
qed

section \<open>Properties of the kernels\<close>

lemma GB_unop_loop_length: "length (GB_unop_loop GETA CAST OP p anz Cx) = length Cx"
proof (induction GETA CAST OP p anz Cx rule: GB_unop_loop.induct)
  case (1 GETA CAST OP p anz Cx)
  show ?case
  proof (cases "p < anz")
    case True
    with "1.IH" show ?thesis by (subst GB_unop_loop.simps) simp
  next
    case False
    then show ?thesis by (subst GB_unop_loop.simps) simp
  qed
qed

lemma GB_unop_loop_nth:
  "reads_own_entry GETA \<Longrightarrow> 0 \<le> p \<Longrightarrow> anz \<le> int (length Cx) \<Longrightarrow> i < length Cx \<Longrightarrow>
     GB_unop_loop GETA CAST OP p anz Cx ! i =
       (if p \<le> int i \<and> int i < anz then OP (CAST (GETA Cx i)) else Cx ! i)"
proof (induction GETA CAST OP p anz Cx rule: GB_unop_loop.induct)
  case (1 GETA CAST OP p anz Cx)
  show ?case
  proof (cases "p < anz")
    case False
    then show ?thesis by (subst GB_unop_loop.simps) auto
  next
    case True
    let ?v = "OP (CAST (GETA Cx (nat p)))"
    let ?Cx' = "Cx[nat p := ?v]"
    have step: "GB_unop_loop GETA CAST OP p anz Cx = GB_unop_loop GETA CAST OP (p + 1) anz ?Cx'"
      using True by (subst GB_unop_loop.simps) simp
    have ih: "GB_unop_loop GETA CAST OP (p + 1) anz ?Cx' ! i =
       (if p + 1 \<le> int i \<and> int i < anz then OP (CAST (GETA ?Cx' i)) else ?Cx' ! i)"
      using "1.IH" [OF True] "1.prems" by simp
    show ?thesis
    proof (cases "int i = p")
      case eq: True
      then have pi: "nat p = i" by simp
      have "GB_unop_loop GETA CAST OP (p + 1) anz ?Cx' ! i = ?Cx' ! i"
        using ih eq by simp
      also have "\<dots> = OP (CAST (GETA Cx i))"
        using pi "1.prems" by simp
      finally show ?thesis
        using step eq True by simp
    next
      case neq: False
      then have ne: "nat p \<noteq> i" using "1.prems" by auto
      then have same: "?Cx' ! i = Cx ! i" by simp
      have "GETA ?Cx' i = GETA Cx i"
        using "1.prems"(1) same unfolding reads_own_entry_def by (metis length_list_update)
      with ih step same neq show ?thesis by auto
    qed
  qed
qed

lemma reads_own_entry_separate: "reads_own_entry (\<lambda>Cx pA. Ax ! pA)"
  by (simp add: reads_own_entry_def)

lemma reads_own_entry_maybe_aliased:
  "reads_own_entry (\<lambda>Cx pA. case Ax of None \<Rightarrow> Cx ! pA | Some Ax \<Rightarrow> Ax ! pA)"
  by (cases Ax) (simp_all add: reads_own_entry_def)

lemma GB_apply_generic_length:
  "anz \<le> int (length Ax) \<Longrightarrow> anz \<le> int (length Cx) \<Longrightarrow>
     length (snd (GB_apply_generic cast fop Cx Ax anz)) = length Cx"
  by (auto simp add: GB_apply_generic_def)

lemma GB_apply_generic_nth:
  "anz \<le> int (length Ax) \<Longrightarrow> anz \<le> int (length Cx) \<Longrightarrow> i < length Cx \<Longrightarrow>
     snd (GB_apply_generic cast fop Cx Ax anz) ! i =
       (if int i < anz then fop (cast (Ax ! i)) else Cx ! i)"
  by (auto simp add: GB_apply_generic_def nth_append)

lemma GB_unop_loop_generic:
  assumes "reads_own_entry GETA" "anz \<le> int (length Ax)" "anz \<le> int (length Cx)"
    and "\<And>i. int i < anz \<Longrightarrow> GETA Cx i = Ax ! i"
  shows "GB_unop_loop GETA CAST OP 0 anz Cx = snd (GB_apply_generic CAST OP Cx Ax anz)"
proof (rule nth_equalityI)
  show "length (GB_unop_loop GETA CAST OP 0 anz Cx) = length (snd (GB_apply_generic CAST OP Cx Ax anz))"
    using assms by (simp add: GB_unop_loop_length GB_apply_generic_length)
next
  fix i assume "i < length (GB_unop_loop GETA CAST OP 0 anz Cx)"
  then have i: "i < length Cx" by (simp add: GB_unop_loop_length)
  show "GB_unop_loop GETA CAST OP 0 anz Cx ! i = snd (GB_apply_generic CAST OP Cx Ax anz) ! i"
    using assms i by (simp add: GB_unop_loop_nth GB_apply_generic_nth)
qed

lemma GB_apply_generic_info: "fst (GB_apply_generic cast fop Cx Ax anz) = GrB_SUCCESS"
  by (simp add: GB_apply_generic_def)

text \<open>
  Claim C1. A specialized unary kernel that is not disabled, run on arrays that hold
  the \<open>anz\<close> entries, returns what the generic kernel returns for the same typecast,
  operator and data: the same \<open>info\<close> and the same contents of \<open>Cx\<close>, whatever the
  number of threads, also when \<open>Cx\<close> and \<open>Ax\<close> are one array.
\<close>

theorem specialized_is_generic:
  "(\<not> GB_DISABLE_identity_int8_fc64 ctl \<and> anz \<le> int (length Ax) \<and> anz \<le> int (length Cx) \<longrightarrow>
      GB_unop__identity_int8_fc64 ctl GB_cast_to_int8_t Cx Ax anz nthreads =
        GB_apply_generic (\<lambda>aij. GB_cast_to_int8_t (creal aij)) (\<lambda>x. x) Cx Ax anz) \<and>
   (\<not> GB_DISABLE_log1p_fc32_fc32 ctl \<and> anz \<le> int (length Ax') \<and> anz \<le> int (length Cx') \<longrightarrow>
      GB_unop__log1p_fc32_fc32 ctl GB_clog1pf Cx' (Some Ax') anz nthreads =
        GB_apply_generic (\<lambda>aij. aij) GB_clog1pf Cx' Ax' anz) \<and>
   (\<not> GB_DISABLE_log1p_fc32_fc32 ctl \<and> anz \<le> int (length Cx') \<longrightarrow>
      GB_unop__log1p_fc32_fc32 ctl GB_clog1pf Cx' None anz nthreads =
        GB_apply_generic (\<lambda>aij. aij) GB_clog1pf Cx' Cx' anz)"
proof -
  have a: "GB_unop__identity_int8_fc64 ctl GB_cast_to_int8_t Cx Ax anz nthreads =
        GB_apply_generic (\<lambda>aij. GB_cast_to_int8_t (creal aij)) (\<lambda>x. x) Cx Ax anz"
    if "\<not> GB_DISABLE_identity_int8_fc64 ctl" "anz \<le> int (length Ax)" "anz \<le> int (length Cx)"
    using that
      GB_unop_loop_generic [OF reads_own_entry_separate, of anz Ax Cx Ax
        "\<lambda>aij. GB_cast_to_int8_t (creal aij)" "\<lambda>x. x"]
    by (simp add: GB_unop__identity_int8_fc64_def prod_eq_iff GB_apply_generic_info)
  have b: "GB_unop__log1p_fc32_fc32 ctl GB_clog1pf Cx' (Some Ax') anz nthreads =
        GB_apply_generic (\<lambda>aij. aij) GB_clog1pf Cx' Ax' anz"
    if "\<not> GB_DISABLE_log1p_fc32_fc32 ctl" "anz \<le> int (length Ax')" "anz \<le> int (length Cx')"
    using that
      GB_unop_loop_generic [OF reads_own_entry_maybe_aliased, of anz Ax' Cx' "Some Ax'"
        "\<lambda>aij. aij" GB_clog1pf]
    by (simp add: GB_unop__log1p_fc32_fc32_def prod_eq_iff GB_apply_generic_info)
  have c: "GB_unop__log1p_fc32_fc32 ctl GB_clog1pf Cx' None anz nthreads =
        GB_apply_generic (\<lambda>aij. aij) GB_clog1pf Cx' Cx' anz"
    if "\<not> GB_DISABLE_log1p_fc32_fc32 ctl" "anz \<le> int (length Cx')"
    using that
      GB_unop_loop_generic [OF reads_own_entry_maybe_aliased, of anz Cx' Cx' None
        "\<lambda>aij. aij" GB_clog1pf]
    by (simp add: GB_unop__log1p_fc32_fc32_def prod_eq_iff GB_apply_generic_info)
  show ?thesis using a b c by blast
qed


theorem specialized_is_generic_witness:
  "\<not> GB_DISABLE_identity_int8_fc64 all_enabled \<and> \<not> GB_DISABLE_log1p_fc32_fc32 all_enabled \<and>
   GB_unop__identity_int8_fc64 all_enabled sample_cast_to_int8 [0, 0, 9]
       [(Fin 5, Fin 1), (Fin (- 7 / 2), Fin 0), (Fin 1, Fin 1)] 2 4 =
     (GrB_SUCCESS, [5, - 3, 9]) \<and>
   GB_unop__log1p_fc32_fc32 all_enabled sample_op [(Fin 0, Fin 0)] (Some [(Fin 1, Fin 2)]) 1 1 =
     (GrB_SUCCESS, [(Fin 2, Fin 1)]) \<and>
   GB_unop__log1p_fc32_fc32 all_enabled sample_op [(Fin 1, Fin 2), (Fin 3, PInf)] None 2 4 =
     (GrB_SUCCESS, [(Fin 2, Fin 1), (PInf, Fin 3)])"
  using specialized_is_generic [where ctl = all_enabled and anz = 2
      and Ax = "[(Fin 5, Fin 1), (Fin (- 7 / 2), Fin 0), (Fin 1, Fin 1)]" and Cx = "[0, 0, 9]"
      and GB_cast_to_int8_t = sample_cast_to_int8 and nthreads = 4
      and Cx' = "[(Fin 1, Fin 2), (Fin 3, PInf)]" and Ax' = "[(Fin 1, Fin 2), (Fin 3, PInf)]"
      and GB_clog1pf = sample_op]
    specialized_is_generic [where ctl = all_enabled and anz = 1 and nthreads = 1
      and Cx' = "[(Fin 0, Fin 0)]" and Ax' = "[(Fin 1, Fin 2)]" and GB_clog1pf = sample_op
      and Ax = "[]" and Cx = "[]"]
  by (simp add: GB_apply_generic_def GB_DISABLE_identity_int8_fc64_def
      GB_DISABLE_log1p_fc32_fc32_def all_enabled_def sample_cast_to_int8_def sample_op_def
      creal_def)

text \<open>
  Claim C2. A specialized unary kernel that is not disabled, run on arrays that hold
  the \<open>anz\<close> entries, returns \<open>GrB_SUCCESS\<close> and leaves in \<open>Cx [p]\<close>, for every
  \<open>0 \<le> p < anz\<close>, the operator applied to the typecast of \<open>Ax [p]\<close>: for
  \<open>identity_int8_fc64\<close> the \<open>int8_t\<close> cast of the real part of \<open>Ax [p]\<close>. The entries of
  \<open>Cx\<close> from \<open>anz\<close> on are as they were.
\<close>

theorem unop_entrywise:
  "(\<not> GB_DISABLE_identity_int8_fc64 ctl \<and> anz \<le> int (length Ax) \<and> anz \<le> int (length Cx) \<longrightarrow>
      (\<exists>Cx_out. GB_unop__identity_int8_fc64 ctl GB_cast_to_int8_t Cx Ax anz nthreads =
                  (GrB_SUCCESS, Cx_out) \<and>
         length Cx_out = length Cx \<and>
         (\<forall>p. p < length Cx \<longrightarrow>
            Cx_out ! p = (if int p < anz then GB_cast_to_int8_t (creal (Ax ! p)) else Cx ! p)))) \<and>
   (\<not> GB_DISABLE_log1p_fc32_fc32 ctl \<and> anz \<le> int (length Cx') \<and>
      (case Ax' of None \<Rightarrow> True | Some A \<Rightarrow> anz \<le> int (length A)) \<longrightarrow>
      (\<exists>Cx_out. GB_unop__log1p_fc32_fc32 ctl GB_clog1pf Cx' Ax' anz nthreads =
                  (GrB_SUCCESS, Cx_out) \<and>
         length Cx_out = length Cx' \<and>
         (\<forall>p. p < length Cx' \<longrightarrow>
            Cx_out ! p =
              (if int p < anz
               then GB_clog1pf (case Ax' of None \<Rightarrow> Cx' ! p | Some A \<Rightarrow> A ! p)
               else Cx' ! p))))"
  by (simp add: GB_unop__identity_int8_fc64_def GB_unop__log1p_fc32_fc32_def
      GB_unop_loop_length GB_unop_loop_nth reads_own_entry_separate
      reads_own_entry_maybe_aliased)

theorem unop_entrywise_witness:
  "\<not> GB_DISABLE_identity_int8_fc64 all_enabled \<and> \<not> GB_DISABLE_log1p_fc32_fc32 all_enabled \<and>
   fst (GB_unop__identity_int8_fc64 all_enabled sample_cast_to_int8 [0, 0]
          [(Fin 5, Fin 1), (Fin 300, Fin 0)] 2 4) = GrB_SUCCESS \<and>
   snd (GB_unop__identity_int8_fc64 all_enabled sample_cast_to_int8 [0, 0]
          [(Fin 5, Fin 1), (Fin 300, Fin 0)] 2 4) ! 1 = 127 \<and>
   snd (GB_unop__log1p_fc32_fc32 all_enabled sample_op [(Fin 1, Fin 2)] None 1 1) ! 0
     = (Fin 2, Fin 1)"
  using unop_entrywise [where ctl = all_enabled and anz = 2
      and Ax = "[(Fin 5, Fin 1), (Fin 300, Fin 0)]" and Cx = "[0, 0]"
      and GB_cast_to_int8_t = sample_cast_to_int8 and nthreads = 4
      and Cx' = "[(Fin 1, Fin 2), (Fin 3, Fin 4)]" and Ax' = None and GB_clog1pf = sample_op]
    unop_entrywise [where ctl = all_enabled and anz = 1 and nthreads = 1
      and Cx' = "[(Fin 1, Fin 2)]" and Ax' = None and GB_clog1pf = sample_op
      and Ax = "[]" and Cx = "[]"]
  by (auto simp add: GB_DISABLE_identity_int8_fc64_def GB_DISABLE_log1p_fc32_fc32_def
      all_enabled_def sample_cast_to_int8_def sample_op_def creal_def)

text \<open>
  Claim C3. A specialized kernel whose \<open>GB_DISABLE\<close> condition holds returns
  \<open>GrB_NO_VALUE\<close> and leaves its output as it was, the apply kernel and the transpose
  kernel alike; the dispatch then runs the generic kernel on the same data and returns
  what that returns, which is \<open>GrB_SUCCESS\<close>. A pair outside the catalog goes to the
  generic kernel at once.
\<close>

theorem disabled_falls_back:
  "(GB_DISABLE_identity_int8_fc64 ctl \<longrightarrow>
      GB_unop__identity_int8_fc64 ctl GB_cast_to_int8_t Cx Ax anz nthreads = (GrB_NO_VALUE, Cx) \<and>
      GB_tran__identity_int8_fc64 ctl body C = (GrB_NO_VALUE, C) \<and>
      GB_apply_dispatch
        (Some (\<lambda>Cx. GB_unop__identity_int8_fc64 ctl GB_cast_to_int8_t Cx Ax anz nthreads))
        (\<lambda>Cx. GB_apply_generic (\<lambda>aij. GB_cast_to_int8_t (creal aij)) (\<lambda>x. x) Cx Ax anz) Cx =
      GB_apply_generic (\<lambda>aij. GB_cast_to_int8_t (creal aij)) (\<lambda>x. x) Cx Ax anz) \<and>
   (GB_DISABLE_log1p_fc32_fc32 ctl \<longrightarrow>
      GB_unop__log1p_fc32_fc32 ctl GB_clog1pf Cx' Ax' anz nthreads = (GrB_NO_VALUE, Cx') \<and>
      GB_tran__log1p_fc32_fc32 ctl body C = (GrB_NO_VALUE, C) \<and>
      GB_apply_dispatch
        (Some (\<lambda>Cx. GB_unop__log1p_fc32_fc32 ctl GB_clog1pf Cx Ax' anz nthreads))
        (\<lambda>Cx. GB_apply_generic (\<lambda>aij. aij) GB_clog1pf Cx (case Ax' of None \<Rightarrow> Cx | Some A \<Rightarrow> A) anz)
        Cx' =
      GB_apply_generic (\<lambda>aij. aij) GB_clog1pf Cx' (case Ax' of None \<Rightarrow> Cx' | Some A \<Rightarrow> A) anz) \<and>
   GB_apply_dispatch None generic Cx'' = generic Cx'' \<and>
   fst (GB_apply_generic cast fop Cx'' Ax'' anz) = GrB_SUCCESS"
  by (simp add: GB_unop__identity_int8_fc64_def GB_unop__log1p_fc32_fc32_def
      GB_tran__identity_int8_fc64_def GB_tran__log1p_fc32_fc32_def
      GB_apply_dispatch_def GB_apply_generic_info)

theorem disabled_falls_back_witness:
  "GB_DISABLE_identity_int8_fc64 no_fc \<and> GB_DISABLE_log1p_fc32_fc32 no_fc \<and>
   GB_unop__identity_int8_fc64 no_fc sample_cast_to_int8 [0, 0]
       [(Fin 5, Fin 1), (Fin 300, Fin 0)] 2 4 = (GrB_NO_VALUE, [0, 0]) \<and>
   GB_apply_dispatch
     (Some (\<lambda>Cx. GB_unop__identity_int8_fc64 no_fc sample_cast_to_int8 Cx
               [(Fin 5, Fin 1), (Fin 300, Fin 0)] 2 4))
     (\<lambda>Cx. GB_apply_generic (\<lambda>aij. sample_cast_to_int8 (creal aij)) (\<lambda>x. x) Cx
               [(Fin 5, Fin 1), (Fin 300, Fin 0)] 2) [0, 0] = (GrB_SUCCESS, [5, 127]) \<and>
   GB_unop__log1p_fc32_fc32 no_fc sample_op [(Fin 1, Fin 2)] None 1 1 =
     (GrB_NO_VALUE, [(Fin 1, Fin 2)])"
  using disabled_falls_back [where ctl = no_fc and anz = 2
      and Ax = "[(Fin 5, Fin 1), (Fin 300, Fin 0)]" and Cx = "[0, 0]"
      and GB_cast_to_int8_t = sample_cast_to_int8 and nthreads = 4
      and Cx' = "[(Fin 1, Fin 2), (Fin 3, Fin 4)]" and Ax' = None and GB_clog1pf = sample_op
      and generic = "\<lambda>Cx. (GrB_SUCCESS, Cx)" and Cx'' = "[0 :: 8 word]"
      and cast = "\<lambda>x. x" and fop = "\<lambda>x. x" and Ax'' = "[0 :: 8 word]"
      and body = "\<lambda>C. C" and C = "sample_matrix 2 2"]
    disabled_falls_back [where ctl = no_fc and anz = 1 and nthreads = 1
      and Cx' = "[(Fin 1, Fin 2)]" and Ax' = None and GB_clog1pf = sample_op
      and Ax = "[]" and Cx = "[]" and GB_cast_to_int8_t = sample_cast_to_int8
      and generic = "\<lambda>Cx. (GrB_SUCCESS, Cx)" and Cx'' = "[0 :: 8 word]"
      and cast = "\<lambda>x. x" and fop = "\<lambda>x. x" and Ax'' = "[0 :: 8 word]"
      and body = "\<lambda>C. C" and C = "sample_matrix 2 2"]
  by (simp add: GB_DISABLE_identity_int8_fc64_def GB_DISABLE_log1p_fc32_fc32_def no_fc_def
      GB_apply_generic_def sample_cast_to_int8_def creal_def)

section \<open>Properties of the allocator indirection\<close>

text \<open>
  Claim C8. Each of the four wrappers calls through the pointer held in the global
  state once, with its own arguments, and hands on the allocator's new heap. When
  \<open>malloc_is_thread_safe\<close> is true the call is all that happens, and the wrapper returns
  what the call returns (\<open>NULL\<close> when the allocator fails). When it is false the call
  happens between entering and leaving the critical section, and the wrapper returns
  what the call returns, unless the section itself reports a failure: then it returns
  \<open>NULL\<close>.
\<close>

theorem allocator_calls:
  "GB_Global_malloc_function M sync g sz h =
     ((if malloc_is_thread_safe g \<or> sync then fst (run_malloc M (malloc_function g) sz h)
       else None),
      snd (run_malloc M (malloc_function g) sz h),
      if malloc_is_thread_safe g then [Invoke (malloc_function g) [sz]]
      else [Enter_critical, Invoke (malloc_function g) [sz], Leave_critical]) \<and>
   GB_Global_calloc_function M sync g cnt sz h =
     ((if malloc_is_thread_safe g \<or> sync then fst (run_calloc M (calloc_function g) cnt sz h)
       else None),
      snd (run_calloc M (calloc_function g) cnt sz h),
      if malloc_is_thread_safe g then [Invoke (calloc_function g) [cnt, sz]]
      else [Enter_critical, Invoke (calloc_function g) [cnt, sz], Leave_critical]) \<and>
   GB_Global_realloc_function M sync g p sz h =
     ((if malloc_is_thread_safe g \<or> sync then fst (run_realloc M (realloc_function g) p sz h)
       else None),
      snd (run_realloc M (realloc_function g) p sz h),
      if malloc_is_thread_safe g then [Invoke (realloc_function g) [ptr_arg p, sz]]
      else [Enter_critical, Invoke (realloc_function g) [ptr_arg p, sz], Leave_critical]) \<and>
   GB_Global_free_function M sync g p h =
     (run_free M (free_function g) p h,
      if malloc_is_thread_safe g then [Invoke (free_function g) [ptr_arg p]]
      else [Enter_critical, Invoke (free_function g) [ptr_arg p], Leave_critical])"
  by (simp add: GB_Global_malloc_function_def GB_Global_calloc_function_def
      GB_Global_realloc_function_def GB_Global_free_function_def GB_critical_section_def
      split: prod.split)

theorem allocator_calls_witness:
  "GB_Global_malloc_function sample_allocator True
     (GB_Global_malloc_is_thread_safe_set False (GB_Global example_constants)) 16 0 =
     (Some 1, 1, [Enter_critical, Invoke libc_malloc [16], Leave_critical]) \<and>
   GB_Global_realloc_function sample_allocator True (GB_Global example_constants) (Some 1) 32 1 =
     (None, 1, [Invoke libc_realloc [1, 32]]) \<and>
   GB_Global_free_function sample_allocator True
     (GB_Global_free_function_set (user_fn 7)
        (GB_Global_malloc_is_thread_safe_set False (GB_Global example_constants))) (Some 1) 1 =
     (1, [Enter_critical, Invoke (user_fn 7) [1], Leave_critical])"
  using allocator_calls [where M = sample_allocator and sync = True
      and g = "GB_Global_malloc_is_thread_safe_set False (GB_Global example_constants)"
      and sz = 16 and h = 0 and cnt = 0 and p = "Some 1"]
    allocator_calls [where M = sample_allocator and sync = True
      and g = "GB_Global example_constants" and sz = 32 and h = 1 and cnt = 0 and p = "Some 1"]
    allocator_calls [where M = sample_allocator and sync = True
      and g = "GB_Global_free_function_set (user_fn 7)
        (GB_Global_malloc_is_thread_safe_set False (GB_Global example_constants))"
      and sz = 0 and h = 1 and cnt = 0 and p = "Some 1"]
  by (simp add: sample_allocator_def GB_Global_def GB_Global_malloc_is_thread_safe_set_def
      GB_Global_free_function_set_def ptr_arg_def)

section \<open>Properties of the multiply entry point\<close>

text \<open>
  Claim C5. A multiply of two matrices whose inner dimensions do not agree after the
  transpose flags are applied (the columns of \<open>op (A)\<close> are not the rows of \<open>op (B)\<close>)
  is rejected with \<open>GrB_DIMENSION_MISMATCH\<close>, whatever the types, the hint and the
  strategies are, and the state is as it was: no strategy has run, the output has not
  changed and no pending operand has been materialized.
\<close>

theorem multiply_rejects_dimension_mismatch:
  assumes "matrices s a = Some A" and "matrices s b = Some B"
    and "inner_A transposeA A \<noteq> inner_B transposeB B"
  shows "multiply execute outputHandle Mask accumulateOp semiring a b transposeA transposeB
           methodHint s = Some ((GrB_DIMENSION_MISMATCH, None), s)"
  using assms by (simp add: multiply_def)

text \<open>
  A 2-by-2 and a 3-by-3 matrix, both pending, are not multiplied and stay pending;
  the 2-by-2 matrix times itself is multiplied, after it has been materialized and taken
  out of the pending list, where the other matrix stays.
\<close>

theorem multiply_rejects_dimension_mismatch_witness:
  "matrices sample_pending 10 =
     Some ((sample_matrix 2 2)\<lparr>pending := [((0, 0), Fin 5), ((0, 1), Fin 6)],
             queue_next := None, queue_prev := Some 20, enqueued := True\<rparr>) \<and>
   inner_A False (sample_matrix 2 2) \<noteq> inner_B False (sample_matrix 3 3) \<and>
   multiply sample_execution 10 None None plus_times_fp64 10 20 False False GxB_DEFAULT_method
     sample_pending = Some ((GrB_DIMENSION_MISMATCH, None), sample_pending) \<and>
   (\<exists>s'. multiply sample_execution 10 None None plus_times_fp64 10 10 False False
            GxB_DEFAULT_method sample_pending = Some ((GrB_SUCCESS, Some GxB_AxB_GUSTAVSON), s') \<and>
         materializations s' = 1 \<and>
         GB_Global_queue_head_get (global s') = Some 20 \<and>
         map_option (\<lambda>M. (pending M, enqueued M, entries M (0, 0))) (matrices s' 10) =
           Some ([], False, Some (Fin 5)) \<and>
         map_option (\<lambda>M. (pending M, enqueued M, queue_next M)) (matrices s' 20) =
           Some ([((1, 1), Fin 7)], True, None))"
proof -
  have a: "matrices sample_pending 10 =
      Some ((sample_matrix 2 2)\<lparr>pending := [((0, 0), Fin 5), ((0, 1), Fin 6)],
              queue_next := None, queue_prev := Some 20, enqueued := True\<rparr>)"
    by (simp add: sample_pending_def)
  have b: "matrices sample_pending 20 =
      Some ((sample_matrix 3 3)\<lparr>pending := [((1, 1), Fin 7)],
              queue_next := Some 10, queue_prev := None, enqueued := True\<rparr>)"
    by (simp add: sample_pending_def)
  have ne: "inner_A False ((sample_matrix 2 2)\<lparr>pending := [((0, 0), Fin 5), ((0, 1), Fin 6)],
                 queue_next := None, queue_prev := Some 20, enqueued := True\<rparr>) \<noteq>
            inner_B False ((sample_matrix 3 3)\<lparr>pending := [((1, 1), Fin 7)],
                 queue_next := Some 10, queue_prev := None, enqueued := True\<rparr>)"
    by (simp add: inner_A_def inner_B_def GB_NROWS_def GB_NCOLS_def sample_matrix_def)
  have ok: "\<exists>s'. multiply sample_execution 10 None None plus_times_fp64 10 10 False False
            GxB_DEFAULT_method sample_pending = Some ((GrB_SUCCESS, Some GxB_AxB_GUSTAVSON), s') \<and>
         materializations s' = 1 \<and>
         GB_Global_queue_head_get (global s') = Some 20 \<and>
         map_option (\<lambda>M. (pending M, enqueued M, entries M (0, 0))) (matrices s' 10) =
           Some ([], False, Some (Fin 5)) \<and>
         map_option (\<lambda>M. (pending M, enqueued M, queue_next M)) (matrices s' 20) =
           Some ([((1, 1), Fin 7)], True, None)"
    by (simp add: multiply_def flush_def GB_queue_remove_def GB_wait_def assemble_def
        sample_pending_def sample_matrix_def sample_execution_def plus_times_fp64_def
        inner_A_def inner_B_def GB_NROWS_def GB_NCOLS_def acceptable_def
        GB_Global_queue_head_get_def GB_Global_queue_head_set_def Let_def)
  show ?thesis
    using a ok multiply_rejects_dimension_mismatch [OF a b ne, of sample_execution 10 None None
        plus_times_fp64 GxB_DEFAULT_method]
    by (simp add: inner_A_def inner_B_def GB_NROWS_def GB_NCOLS_def sample_matrix_def)
qed

section \<open>Properties of \<open>dpagerank2\<close>\<close>




















section \<open>Properties of \<open>GrB_wait\<close>\<close>

lemma queue_path_cong:
  "\<forall>a\<in>set as. map_option queue_next (h' a) = map_option queue_next (h a) \<Longrightarrow>
     queue_path h' p as = queue_path h p as"
proof (induction as arbitrary: p)
  case Nil
  then show ?case by simp
next
  case (Cons a as)
  from Cons.prems have a: "map_option queue_next (h' a) = map_option queue_next (h a)"
    by simp
  from Cons.prems have "\<And>q. queue_path h' q as = queue_path h q as"
    using Cons.IH by simp
  with a show ?case
    by (cases "h a"; cases "h' a") auto
qed

lemma queue_path_unique:
  "queue_path h p as \<Longrightarrow> queue_path h p bs \<Longrightarrow> as = bs"
proof (induction as arbitrary: p bs)
  case Nil
  then show ?case by (cases bs) auto
next
  case (Cons a as)
  then show ?case
    by (cases bs) (auto split: option.splits)
qed

lemma queue_path_suffix:
  "queue_path h p (as @ bs) \<Longrightarrow> \<exists>q. queue_path h q bs"
  by (induction as arbitrary: p) (auto split: option.splits)

lemma queue_path_distinct: "queue_path h p as \<Longrightarrow> distinct as"
proof (induction as arbitrary: p)
  case Nil
  then show ?case by simp
next
  case (Cons a as)
  then obtain A where A: "h a = Some A" and tl: "queue_path h (queue_next A) as"
    by (auto split: option.splits)
  have "a \<notin> set as"
  proof
    assume "a \<in> set as"
    then obtain xs ys where as: "as = xs @ a # ys"
      by (auto simp add: in_set_conv_decomp)
    with tl obtain q where "queue_path h q (a # ys)"
      using queue_path_suffix by blast
    then have "queue_path h (Some a) (a # ys)"
      by auto
    moreover have "queue_path h (Some a) (a # as)"
      using Cons.prems by auto
    ultimately have "a # ys = a # as"
      by (rule queue_path_unique)
    with as show False by simp
  qed
  with Cons.IH [OF tl] show ?case by simp
qed

lemma finished_unlinked: "finished (unlinked B) = finished B"
  by (simp add: finished_def unlinked_def assemble_def)

lemma first_step:
  assumes "queue_path (matrices s) (queue_head (global s)) (a # as)"
  shows "\<exists>A s1. matrices s a = Some A \<and> queue_path (matrices s) (queue_next A) as \<and>
           GB_queue_remove_head s = Some (Some a, s1) \<and>
           GB_wait a s1 = Some (after_first s a A)"
proof -
  from assms obtain A where hd: "queue_head (global s) = Some a" and A: "matrices s a = Some A"
    and tl: "queue_path (matrices s) (queue_next A) as"
    by (auto split: option.splits)
  have na: "a \<notin> set as"
    using queue_path_distinct [OF assms] by simp
  show ?thesis
  proof (cases as)
    case Nil
    with tl have "queue_next A = None" by simp
    with hd A tl show ?thesis
      by (auto simp add: GB_queue_remove_head_def GB_wait_def after_first_def Let_def
          GB_Global_queue_head_get_def GB_Global_queue_head_set_def finished_def assemble_def
          fun_eq_iff)
  next
    case (Cons b bs)
    with tl obtain B where nx: "queue_next A = Some b" and B: "matrices s b = Some B"
      by (auto split: option.splits)
    from na Cons have ab: "a \<noteq> b" by auto
    with hd A tl nx B show ?thesis
      by (auto simp add: GB_queue_remove_head_def GB_wait_def after_first_def Let_def
          GB_Global_queue_head_get_def GB_Global_queue_head_set_def finished_def assemble_def
          unlinked_def fun_eq_iff)
  qed
qed


lemma after_first_path:
  assumes "matrices s a = Some A" and "queue_path (matrices s) (queue_next A) as"
    and "a \<notin> set as"
  shows "queue_path (matrices (after_first s a A)) (queue_head (global (after_first s a A))) as"
proof -
  have "\<forall>c\<in>set as. map_option queue_next (matrices (after_first s a A) c) =
          map_option queue_next (matrices s c)"
    using assms(3)
    by (auto simp add: after_first_def unlinked_def option.map_comp comp_def)
  then have "queue_path (matrices (after_first s a A)) (queue_next A) as =
          queue_path (matrices s) (queue_next A) as"
    by (rule queue_path_cong)
  with assms(2) show ?thesis
    by (simp add: after_first_def)
qed

lemma after_wait_after_first:
  assumes "matrices s a = Some A" and "queue_path (matrices s) (queue_next A) as"
    and "a \<notin> set as"
  shows "after_wait (after_first s a A) as = after_wait s (a # as)"
proof -
  have nx: "c \<in> set as" if "queue_next A = Some c" for c
    using assms(2) that by (cases as) auto
  have "matrices (after_wait (after_first s a A) as) c = matrices (after_wait s (a # as)) c" for c
    using assms(1,3) nx [of c]
    by (auto simp add: after_wait_def after_first_def option.map_comp comp_def finished_unlinked)
  then have "matrices (after_wait (after_first s a A) as) = matrices (after_wait s (a # as))"
    by (rule ext)
  then show ?thesis
    by (intro engine.equality) (simp_all add: after_wait_def after_first_def)
qed

lemma GrB_wait_path:
  "queue_path (matrices s) (queue_head (global s)) as \<Longrightarrow>
     GrB_wait s = Some (GrB_SUCCESS, after_wait s as)"
proof (induction as arbitrary: s)
  case Nil
  then have "queue_head (global s) = None" by simp
  then show ?case
    by (subst GrB_wait.simps)
      (simp add: GB_queue_remove_head_def GB_Global_queue_head_get_def after_wait_def)
next
  case (Cons a as)
  from first_step [OF Cons.prems] obtain A s1
    where A: "matrices s a = Some A" and tl: "queue_path (matrices s) (queue_next A) as"
      and rm: "GB_queue_remove_head s = Some (Some a, s1)"
      and w: "GB_wait a s1 = Some (after_first s a A)"
    by blast
  have na: "a \<notin> set as"
    using queue_path_distinct [OF Cons.prems] by simp
  have "GrB_wait s = GrB_wait (after_first s a A)"
    using rm w by (subst GrB_wait.simps) simp
  also have "\<dots> = Some (GrB_SUCCESS, after_wait (after_first s a A) as)"
    using after_first_path [OF A tl na] by (rule Cons.IH)
  also have "after_wait (after_first s a A) as = after_wait s (a # as)"
    using A tl na by (rule after_wait_after_first)
  finally show ?case .
qed

lemma after_wait_empty: "queue_head (global s) = None \<Longrightarrow> after_wait s [] = s"
  by (simp add: after_wait_def)

text \<open>
  Claim C4. When the pending list is a list (following the links from the head
  reaches \<open>NULL\<close>, through the addresses \<open>as\<close>), \<open>GrB_wait\<close> returns, with
  \<open>GrB_SUCCESS\<close>; the list is then empty; every matrix that was in it has been assembled
  and taken out, each in one materialization, and no other matrix has changed. A second
  \<open>GrB_wait\<close> returns \<open>GrB_SUCCESS\<close> and the state it was given: it materializes nothing.
\<close>

theorem GrB_wait_empties_the_queue:
  assumes "queue_path (matrices s) (GB_Global_queue_head_get (global s)) as"
  shows "\<exists>s'. GrB_wait s = Some (GrB_SUCCESS, s') \<and>
           GB_Global_queue_head_get (global s') = None \<and>
           (\<forall>a\<in>set as. \<exists>A. matrices s a = Some A \<and> matrices s' a = Some (finished A)) \<and>
           (\<forall>c. c \<notin> set as \<longrightarrow> matrices s' c = matrices s c) \<and>
           materializations s' = materializations s + length as \<and>
           GrB_wait s' = Some (GrB_SUCCESS, s')"
proof -
  let ?s' = "after_wait s as"
  from assms have path: "queue_path (matrices s) (queue_head (global s)) as"
    by (simp add: GB_Global_queue_head_get_def)
  have 1: "GrB_wait s = Some (GrB_SUCCESS, ?s')"
    using path by (rule GrB_wait_path)
  have 2: "queue_head (global ?s') = None"
    by (simp add: after_wait_def)
  have present: "\<exists>A. matrices s a = Some A" if "a \<in> set as" for a
    using path that
  proof (induction as arbitrary: s)
    case Nil
    then show ?case by simp
  next
    case (Cons b bs)
    then obtain B where B: "matrices s b = Some B" and tl: "queue_path (matrices s) (queue_next B) bs"
      by (auto split: option.splits)
    show ?case
    proof (cases "a = b")
      case True
      with B show ?thesis by simp
    next
      case False
      with Cons.prems have "a \<in> set bs" by simp
      with Cons.IH [of "s\<lparr>global := (global s)\<lparr>queue_head := queue_next B\<rparr>\<rparr>"] tl
      show ?thesis by simp
    qed
  qed
  have 3: "\<forall>a\<in>set as. \<exists>A. matrices s a = Some A \<and> matrices ?s' a = Some (finished A)"
  proof
    fix a assume a: "a \<in> set as"
    with present obtain A where "matrices s a = Some A" by blast
    with a show "\<exists>A. matrices s a = Some A \<and> matrices ?s' a = Some (finished A)"
      by (simp add: after_wait_def)
  qed
  have "queue_path (matrices ?s') (queue_head (global ?s')) []"
    using 2 by simp
  then have "GrB_wait ?s' = Some (GrB_SUCCESS, after_wait ?s' [])"
    by (rule GrB_wait_path)
  then have 4: "GrB_wait ?s' = Some (GrB_SUCCESS, ?s')"
    using 2 by (simp add: after_wait_empty)
  show ?thesis
    using 1 2 3 4 by (intro exI [of _ ?s']) (simp add: after_wait_def GB_Global_queue_head_get_def)
qed

lemma sample_pending_reached:
  "Option.bind (Option.bind (setElement 10 (0, 0) (Fin 5) sample_engine)
       (setElement 20 (1, 1) (Fin 7))) (setElement 10 (0, 1) (Fin 6)) = Some sample_pending"
  by (simp add: setElement_def GB_queue_insert_def sample_engine_def sample_pending_def
      sample_matrix_def GB_Global_def GB_Global_mode_get_def GB_Global_queue_head_get_def
      GB_Global_queue_head_set_def Let_def fun_upd_twist)

theorem GrB_wait_empties_the_queue_witness:
  "queue_path (matrices sample_pending) (GB_Global_queue_head_get (global sample_pending)) [20, 10] \<and>
   (\<exists>s'. GrB_wait sample_pending = Some (GrB_SUCCESS, s') \<and>
      GB_Global_queue_head_get (global s') = None \<and>
      map_option (\<lambda>M. (entries M (0, 0), entries M (0, 1), pending M, enqueued M)) (matrices s' 10)
        = Some (Some (Fin 5), Some (Fin 6), [], False) \<and>
      map_option (\<lambda>M. (entries M (1, 1), pending M, enqueued M)) (matrices s' 20)
        = Some (Some (Fin 7), [], False) \<and>
      materializations s' = 2 \<and>
      GrB_wait s' = Some (GrB_SUCCESS, s'))"
proof -
  have path: "queue_path (matrices sample_pending)
      (GB_Global_queue_head_get (global sample_pending)) [20, 10]"
    by (simp add: sample_pending_def GB_Global_queue_head_get_def)
  from GrB_wait_empties_the_queue [OF path] obtain s'
    where w: "GrB_wait sample_pending = Some (GrB_SUCCESS, s')"
      and h: "GB_Global_queue_head_get (global s') = None"
      and m: "\<forall>a\<in>set [20, 10]. \<exists>A. matrices sample_pending a = Some A \<and>
                matrices s' a = Some (finished A)"
      and k: "materializations s' = materializations sample_pending + length [20 :: nat, 10]"
      and again: "GrB_wait s' = Some (GrB_SUCCESS, s')"
    by blast
  from m have m1: "matrices s' 10 = Some (finished
      ((sample_matrix 2 2)\<lparr>pending := [((0, 0), Fin 5), ((0, 1), Fin 6)],
                 queue_next := None, queue_prev := Some 20, enqueued := True\<rparr>))"
    by (simp add: sample_pending_def)
  from m have m2: "matrices s' 20 = Some (finished
      ((sample_matrix 3 3)\<lparr>pending := [((1, 1), Fin 7)],
                 queue_next := Some 10, queue_prev := None, enqueued := True\<rparr>))"
    by (simp add: sample_pending_def)
  have k2: "materializations s' = 2"
    using k by (simp add: sample_pending_def)
  show ?thesis
    using path w h again k2
    by (intro conjI exI [of _ s'])
      (simp_all add: m1 m2 finished_def assemble_def sample_matrix_def)
qed

end
